theory Spec2Isabelle
  imports Complex_Main "HOL-Library.Sublist"
begin

section \<open>JavaScript values\<close>

text \<open>
  The library classifies and dispatches on arbitrary JavaScript values, so the embedding
  starts with a type of such values.

  \<^item> A number is an IEEE double. The code never does arithmetic on a caller's number: it only
    asks whether it is \<open>NaN\<close>, whether it is an integer, how it compares with \<open>0\<close>, and whether
    it is \<open>===\<close> to another value. A finite double is therefore represented by the rational
    it denotes (\<open>+0\<close> and \<open>-0\<close>, which none of these operations tells apart, both by \<open>0\<close>).
  \<^item> Symbols, arrays, objects and functions have an identity (a \<open>nat\<close>): \<open>===\<close> compares
    identities, not contents. Nothing in the library mutates a value, so the contents travel
    with the identity.
  \<^item> An object carries its own properties in creation order, and the properties it inherits
    through its prototype chain (which the \<open>in\<close> operator and property reads also see). Own
    properties are enumerable data properties, as object literals and assignments create them.
    The tag says of which of the built-in classes tested by \<open>guards/special.ts\<close> the object
    is an instance.
  \<^item> A function is opaque: what a call or a construction does is given by the host
    environment (below). \<open>bigint\<close> values, proxies and accessor properties are not modelled.
\<close>

datatype jsnum = NaN | PosInfinity | NegInfinity | Finite rat

datatype propkey = KStr string | KSym nat

datatype objclass = OtherObject | MapObject | SetObject | WeakMapObject | WeakSetObject | DateObject

datatype jsval =
    VUndefined
  | VNull
  | VBool bool
  | VNum jsnum
  | VStr string
  | VSym nat
  | VArr nat "jsval list"
  | VObj nat objclass "(propkey \<times> jsval) list" "(propkey \<times> jsval) list"
  | VFun nat

datatype jstype = TUndefined | TObject | TBoolean | TNumber | TString | TSymbol | TFunction

text \<open>
  What the code can raise. \<open>TypeError\<close> and \<open>ReferenceError\<close> are error objects of these
  classes with the given message, whether the engine or the library created them;
  \<open>Thrown v\<close> is any other value thrown by caller code. \<open>Unmodelled\<close> marks an operation
  whose JavaScript meaning lies outside this embedding (a coercion that runs caller code, a
  property of a wrapper object): the model stops there instead of inventing a result, and
  the theorems below show that the library never gets there where they say it returns.
\<close>

datatype error = TypeError string | ReferenceError string | Thrown jsval | Unmodelled

definition bindE :: "error + 'a \<Rightarrow> ('a \<Rightarrow> error + 'b) \<Rightarrow> error + 'b" where
  "bindE m f = (case m of Inl e \<Rightarrow> Inl e | Inr x \<Rightarrow> f x)"

text \<open>\<open>a && b\<close> on a boolean \<open>a\<close>: \<open>b\<close> is evaluated only when \<open>a\<close> is true.\<close>

definition andAlso :: "bool \<Rightarrow> (error + bool) \<Rightarrow> error + bool" where
  "andAlso a b = (if a then b else Inr False)"

subsection \<open>Operators of the language\<close>

fun typeof :: "jsval \<Rightarrow> jstype" where
  "typeof VUndefined = TUndefined"
| "typeof VNull = TObject"
| "typeof (VBool _) = TBoolean"
| "typeof (VNum _) = TNumber"
| "typeof (VStr _) = TString"
| "typeof (VSym _) = TSymbol"
| "typeof (VArr _ _) = TObject"
| "typeof (VObj _ _ _ _) = TObject"
| "typeof (VFun _) = TFunction"

text \<open>\<open>a === b\<close> on two numbers: \<open>NaN\<close> equals nothing, itself included.\<close>

fun numEq :: "jsnum \<Rightarrow> jsnum \<Rightarrow> bool" where
  "numEq NaN _ = False"
| "numEq _ NaN = False"
| "numEq a b = (a = b)"

text \<open>\<open>a === b\<close>: same type and same primitive value, or the same identity.\<close>

fun strictEq :: "jsval \<Rightarrow> jsval \<Rightarrow> bool" where
  "strictEq VUndefined w = (case w of VUndefined \<Rightarrow> True | _ \<Rightarrow> False)"
| "strictEq VNull w = (case w of VNull \<Rightarrow> True | _ \<Rightarrow> False)"
| "strictEq (VBool a) w = (case w of VBool b \<Rightarrow> a = b | _ \<Rightarrow> False)"
| "strictEq (VNum a) w = (case w of VNum b \<Rightarrow> numEq a b | _ \<Rightarrow> False)"
| "strictEq (VStr a) w = (case w of VStr b \<Rightarrow> a = b | _ \<Rightarrow> False)"
| "strictEq (VSym a) w = (case w of VSym b \<Rightarrow> a = b | _ \<Rightarrow> False)"
| "strictEq (VArr r xs) w = (case w of VArr r' ys \<Rightarrow> r = r' | _ \<Rightarrow> False)"
| "strictEq (VObj r c own inherited) w = (case w of VObj r' c' own' inherited' \<Rightarrow> r = r' | _ \<Rightarrow> False)"
| "strictEq (VFun r) w = (case w of VFun r' \<Rightarrow> r = r' | _ \<Rightarrow> False)"

text \<open>\<open>a > b\<close> on two numbers; any other operand is coerced first, which is not modelled.\<close>

fun numGreater :: "jsnum \<Rightarrow> jsnum \<Rightarrow> bool" where
  "numGreater NaN _ = False"
| "numGreater _ NaN = False"
| "numGreater PosInfinity b = (b \<noteq> PosInfinity)"
| "numGreater NegInfinity _ = False"
| "numGreater (Finite a) PosInfinity = False"
| "numGreater (Finite a) NegInfinity = True"
| "numGreater (Finite a) (Finite b) = (b < a)"

definition greaterThan :: "jsval \<Rightarrow> jsval \<Rightarrow> error + bool" where
  "greaterThan v w =
     (case v of
        VNum a \<Rightarrow> (case w of VNum b \<Rightarrow> Inr (numGreater a b) | _ \<Rightarrow> Inl Unmodelled)
      | _ \<Rightarrow> Inl Unmodelled)"

text \<open>\<open>a >= b\<close> on two numbers.\<close>

definition greaterEq :: "jsval \<Rightarrow> jsval \<Rightarrow> error + bool" where
  "greaterEq v w =
     (case v of
        VNum a \<Rightarrow> (case w of VNum b \<Rightarrow> Inr (numGreater a b \<or> numEq a b) | _ \<Rightarrow> Inl Unmodelled)
      | _ \<Rightarrow> Inl Unmodelled)"

text \<open>\<open>Array.isArray\<close>, \<open>Number.isNaN\<close> and \<open>Number.isInteger\<close> accept any value.\<close>

fun arrayIsArray :: "jsval \<Rightarrow> bool" where
  "arrayIsArray (VArr _ _) = True"
| "arrayIsArray _ = False"

fun numberIsNaN :: "jsval \<Rightarrow> bool" where
  "numberIsNaN (VNum NaN) = True"
| "numberIsNaN _ = False"

fun numberIsInteger :: "jsval \<Rightarrow> bool" where
  "numberIsInteger (VNum (Finite q)) = (of_int \<lfloor>q\<rfloor> = q)"
| "numberIsInteger _ = False"

definition lengthValue :: "'a list \<Rightarrow> jsval" where
  "lengthValue xs = VNum (Finite (of_nat (length xs)))"

text \<open>
  Reading a property \<open>v[k]\<close>. On \<open>undefined\<close> and \<open>null\<close> the read throws. An object
  answers with its own property, else the inherited one, else \<open>undefined\<close>. Strings and
  arrays answer for \<open>length\<close>; their other properties, and the properties of the remaining
  values, are outside the model. (A string is a list of code units.)
\<close>

definition propertyValue :: "(propkey \<times> jsval) list \<Rightarrow> (propkey \<times> jsval) list \<Rightarrow> propkey \<Rightarrow> jsval" where
  "propertyValue own inherited k =
     (case map_of own k of
        Some v \<Rightarrow> v
      | None \<Rightarrow> (case map_of inherited k of Some v \<Rightarrow> v | None \<Rightarrow> VUndefined))"

fun getProperty :: "jsval \<Rightarrow> propkey \<Rightarrow> error + jsval" where
  "getProperty VUndefined k = Inl (TypeError ''Cannot read properties of undefined'')"
| "getProperty VNull k = Inl (TypeError ''Cannot read properties of null'')"
| "getProperty (VObj r c own inherited) k = Inr (propertyValue own inherited k)"
| "getProperty (VStr s) k = (if k = KStr ''length'' then Inr (lengthValue s) else Inl Unmodelled)"
| "getProperty (VArr r xs) k = (if k = KStr ''length'' then Inr (lengthValue xs) else Inl Unmodelled)"
| "getProperty _ k = Inl Unmodelled"

section \<open>The predicate layer (Conditionals)\<close>

text \<open>
  One definition per exported predicate, in the order of the source. A predicate whose body
  uses only operators that accept every value (\<open>===\<close>, \<open>typeof\<close>, \<open>!\<close>, \<open>Array.isArray\<close>,
  \<open>Number.isNaN\<close>, \<open>Number.isInteger\<close>, and \<open>&&\<close>, \<open>||\<close> on booleans) has type
  \<open>jsval \<Rightarrow> bool\<close>. A predicate that reads a property or compares with \<open>>\<close> has type
  \<open>jsval \<Rightarrow> error + bool\<close>, since such an operation can throw; the guard in front of it is
  kept as the short-circuit \<open>andAlso\<close>.
\<close>

definition isNull :: "jsval \<Rightarrow> bool" where
  "isNull val = strictEq val VNull"

definition isUndefined :: "jsval \<Rightarrow> bool" where
  "isUndefined val = (typeof val = TUndefined)"

definition isMissing :: "jsval \<Rightarrow> bool" where
  "isMissing val = (isNull val \<or> isUndefined val)"

definition isPresent :: "jsval \<Rightarrow> bool" where
  "isPresent val = (\<not> isMissing val)"

definition isBoolean :: "jsval \<Rightarrow> bool" where
  "isBoolean val = (isPresent val \<and> typeof val = TBoolean)"

definition isArray :: "jsval \<Rightarrow> bool" where
  "isArray val = (isPresent val \<and> arrayIsArray val)"

definition isObject :: "jsval \<Rightarrow> bool" where
  "isObject val = (isPresent val \<and> typeof val = TObject \<and> \<not> isArray val)"

definition isString :: "jsval \<Rightarrow> bool" where
  "isString val = (isPresent val \<and> typeof val = TString)"

definition isNumber :: "jsval \<Rightarrow> bool" where
  "isNumber val = (isPresent val \<and> typeof val = TNumber \<and> \<not> numberIsNaN val)"

definition isFunction :: "jsval \<Rightarrow> bool" where
  "isFunction val = (isPresent val \<and> typeof val = TFunction)"

definition isNonEmptyString :: "jsval \<Rightarrow> error + bool" where
  "isNonEmptyString val =
     andAlso (isString val)
       (bindE (getProperty val (KStr ''length'')) (\<lambda>n. greaterThan n (VNum (Finite 0))))"

definition isNonEmptyArray :: "jsval \<Rightarrow> error + bool" where
  "isNonEmptyArray val =
     andAlso (isArray val)
       (bindE (getProperty val (KStr ''length'')) (\<lambda>n. greaterThan n (VNum (Finite 0))))"

definition isTrue :: "jsval \<Rightarrow> bool" where
  "isTrue val = (isBoolean val \<and> strictEq val (VBool True))"

definition isPositiveInteger :: "jsval \<Rightarrow> error + bool" where
  "isPositiveInteger val =
     andAlso (isNumber val \<and> numberIsInteger val) (greaterThan val (VNum (Finite 0)))"

definition isNonNegativeInteger :: "jsval \<Rightarrow> error + bool" where
  "isNonNegativeInteger val =
     andAlso (isNumber val \<and> numberIsInteger val) (greaterEq val (VNum (Finite 0)))"

definition hasOneItem :: "jsval \<Rightarrow> error + bool" where
  "hasOneItem val =
     andAlso (isArray val)
       (bindE (getProperty val (KStr ''length'')) (\<lambda>n. Inr (strictEq n (VNum (Finite 1)))))"

definition hasMultipleItems :: "jsval \<Rightarrow> error + bool" where
  "hasMultipleItems val =
     andAlso (isArray val)
       (bindE (getProperty val (KStr ''length'')) (\<lambda>n. greaterThan n (VNum (Finite 1))))"

definition isEqual :: "jsval \<Rightarrow> jsval \<Rightarrow> bool" where
  "isEqual val1 val2 = strictEq val1 val2"

subsection \<open>Strings, property keys and property enumeration\<close>

text \<open>\<open>s.indexOf(pat)\<close>: the first position at which \<open>pat\<close> occurs in \<open>s\<close>, or \<open>-1\<close>.\<close>

fun indexOfFrom :: "string \<Rightarrow> string \<Rightarrow> nat \<Rightarrow> int" where
  "indexOfFrom pat [] i = (if pat = [] then int i else - 1)"
| "indexOfFrom pat (c # cs) i = (if prefix pat (c # cs) then int i else indexOfFrom pat cs (Suc i))"

definition stringIndexOf :: "string \<Rightarrow> string \<Rightarrow> int" where
  "stringIndexOf s pat = indexOfFrom pat s 0"

text \<open>
  The method call \<open>m.indexOf(pat)\<close> on an arbitrary value \<open>m\<close>: it throws on
  \<open>undefined\<close> and \<open>null\<close>, searches a string, and is not modelled otherwise.
\<close>

fun callIndexOf :: "jsval \<Rightarrow> string \<Rightarrow> error + jsval" where
  "callIndexOf VUndefined pat = Inl (TypeError ''Cannot read properties of undefined'')"
| "callIndexOf VNull pat = Inl (TypeError ''Cannot read properties of null'')"
| "callIndexOf (VStr s) pat = Inr (VNum (Finite (of_int (stringIndexOf s pat))))"
| "callIndexOf _ pat = Inl Unmodelled"

definition digitChar :: "nat \<Rightarrow> char" where
  "digitChar d = ''0123456789'' ! d"

fun decimalDigits :: "nat \<Rightarrow> string" where
  "decimalDigits n =
     (if n < 10 then [digitChar n] else decimalDigits (n div 10) @ [digitChar (n mod 10)])"

declare decimalDigits.simps [simp del]

text \<open>
  The string of a number, as template literals and property keys use it. An integer below
  \<open>2\<^sup>5\<^sup>3\<close> in magnitude is written in its decimal digits: every such integer is a double
  and no other decimal number rounds to it with fewer digits. For any other finite number the
  engine writes the shortest digits that read back as the same double, in decimal or in
  exponent notation. This embedding does not compute them: \<open>engineDigits\<close> stands for them, a
  fixed function chosen without any condition, so that a theorem can rest on the engine
  writing some string for the number, never on which string it is. No example below
  evaluates it.
\<close>

definition engineDigits :: "rat \<Rightarrow> string" where
  "engineDigits = (SOME digits. True)"

fun numberToString :: "jsnum \<Rightarrow> error + string" where
  "numberToString NaN = Inr ''NaN''"
| "numberToString PosInfinity = Inr ''Infinity''"
| "numberToString NegInfinity = Inr ''-Infinity''"
| "numberToString (Finite q) =
     Inr (if of_int \<lfloor>q\<rfloor> = q \<and> \<bar>q\<bar> < 2 ^ 53
          then (if q < 0 then ''-'' else []) @ decimalDigits (nat \<bar>\<lfloor>q\<rfloor>\<bar>)
          else engineDigits q)"

text \<open>
  The string of a value. An object is converted by its \<open>toString\<close> or \<open>valueOf\<close> method,
  which is caller code and not modelled; an object without any property, such as
  \<open>Object.create(null)\<close>, has neither, and converting it throws.
\<close>

fun toStringJs :: "jsval \<Rightarrow> error + string" where
  "toStringJs VUndefined = Inr ''undefined''"
| "toStringJs VNull = Inr ''null''"
| "toStringJs (VBool b) = Inr (if b then ''true'' else ''false'')"
| "toStringJs (VNum n) = numberToString n"
| "toStringJs (VStr s) = Inr s"
| "toStringJs (VSym n) = Inl (TypeError ''Cannot convert a Symbol value to a string'')"
| "toStringJs (VObj r c own inherited) =
     (if own = [] \<and> inherited = []
      then Inl (TypeError ''Cannot convert object to primitive value'')
      else Inl Unmodelled)"
| "toStringJs _ = Inl Unmodelled"

text \<open>
  The key under which a value names a property (\<open>obj[key]\<close>, \<open>key in obj\<close>, and the keys
  of an object literal): a symbol is its own key, any other value its string.
\<close>

fun toPropertyKey :: "jsval \<Rightarrow> error + propkey" where
  "toPropertyKey (VSym n) = Inr (KSym n)"
| "toPropertyKey v = bindE (toStringJs v) (\<lambda>s. Inr (KStr s))"

text \<open>
  \<open>key in obj\<close>: throws unless the right operand is an object; an object has the key when
  it owns or inherits it. Arrays and functions as right operands are not modelled.
\<close>

fun inOperator :: "jsval \<Rightarrow> jsval \<Rightarrow> error + bool" where
  "inOperator key (VObj r c own inherited) =
     bindE (toPropertyKey key) (\<lambda>k. Inr (k \<in> set (map fst own) \<or> k \<in> set (map fst inherited)))"
| "inOperator key (VArr r xs) = Inl Unmodelled"
| "inOperator key (VFun r) = Inl Unmodelled"
| "inOperator key _ = Inl (TypeError ''Cannot use in operator to search for a key'')"

fun symbolKeys :: "(propkey \<times> jsval) list \<Rightarrow> nat list" where
  "symbolKeys [] = []"
| "symbolKeys ((KSym n, v) # ps) = n # symbolKeys ps"
| "symbolKeys ((KStr s, v) # ps) = symbolKeys ps"

fun stringKeys :: "(propkey \<times> jsval) list \<Rightarrow> string list" where
  "stringKeys [] = []"
| "stringKeys ((KStr s, v) # ps) = s # stringKeys ps"
| "stringKeys ((KSym n, v) # ps) = stringKeys ps"

text \<open>
  An array index is the canonical decimal string of an integer below \<open>2\<^sup>3\<^sup>2 - 1\<close>. The
  engine lists the string keys of an object with the array indices first, in ascending
  numeric order, and the other strings after them in creation order.
\<close>

definition isDigit :: "char \<Rightarrow> bool" where
  "isDigit c = (c \<in> set ''0123456789'')"

definition digitValue :: "char \<Rightarrow> nat" where
  "digitValue c = of_char c - 48"

definition arrayIndex :: "string \<Rightarrow> nat option" where
  "arrayIndex str =
     (if str \<noteq> [] \<and> list_all isDigit str \<and> (str = ''0'' \<or> hd str \<noteq> CHR ''0'')
      then (let n = foldl (\<lambda>acc c. 10 * acc + digitValue c) 0 str
            in if n < 2 ^ 32 - 1 then Some n else None)
      else None)"

definition indexedKeys :: "string list \<Rightarrow> (nat \<times> string) list" where
  "indexedKeys ss = List.map_filter (\<lambda>s. map_option (\<lambda>i. (i, s)) (arrayIndex s)) ss"

definition orderedStringKeys :: "string list \<Rightarrow> string list" where
  "orderedStringKeys ss =
     map snd (sort_key fst (indexedKeys ss)) @ filter (\<lambda>s. arrayIndex s = None) ss"

fun getOwnPropertySymbols :: "jsval \<Rightarrow> error + jsval list" where
  "getOwnPropertySymbols (VObj r c own inherited) = Inr (map VSym (symbolKeys own))"
| "getOwnPropertySymbols VUndefined = Inl (TypeError ''Cannot convert undefined or null to object'')"
| "getOwnPropertySymbols VNull = Inl (TypeError ''Cannot convert undefined or null to object'')"
| "getOwnPropertySymbols _ = Inl Unmodelled"

fun getOwnPropertyNames :: "jsval \<Rightarrow> error + jsval list" where
  "getOwnPropertyNames (VObj r c own inherited) = Inr (map VStr (orderedStringKeys (stringKeys own)))"
| "getOwnPropertyNames VUndefined = Inl (TypeError ''Cannot convert undefined or null to object'')"
| "getOwnPropertyNames VNull = Inl (TypeError ''Cannot convert undefined or null to object'')"
| "getOwnPropertyNames _ = Inl Unmodelled"

text \<open>\<open>Object.keys\<close>: the own enumerable string keys, in the same order.\<close>

fun objectKeys :: "jsval \<Rightarrow> error + jsval list" where
  "objectKeys (VObj r c own inherited) = Inr (map VStr (orderedStringKeys (stringKeys own)))"
| "objectKeys VUndefined = Inl (TypeError ''Cannot convert undefined or null to object'')"
| "objectKeys VNull = Inl (TypeError ''Cannot convert undefined or null to object'')"
| "objectKeys _ = Inl Unmodelled"

subsection \<open>Array methods with a callback\<close>

text \<open>
  \<open>filter\<close>, \<open>map\<close> and \<open>find\<close> call their callback on the elements from left to right; an
  exception of the callback ends the method. \<open>findS\<close> is \<open>find\<close> for a callback that runs
  caller code, so it threads the state of the world; \<open>find\<close> answers \<open>undefined\<close>, here
  \<open>None\<close>, when no element passes.
\<close>

fun filterE :: "('a \<Rightarrow> error + bool) \<Rightarrow> 'a list \<Rightarrow> error + 'a list" where
  "filterE p [] = Inr []"
| "filterE p (x # xs) =
     bindE (p x) (\<lambda>b. bindE (filterE p xs) (\<lambda>ys. Inr (if b then x # ys else ys)))"

fun mapE :: "('a \<Rightarrow> error + 'b) \<Rightarrow> 'a list \<Rightarrow> error + 'b list" where
  "mapE f [] = Inr []"
| "mapE f (x # xs) = bindE (f x) (\<lambda>y. bindE (mapE f xs) (\<lambda>ys. Inr (y # ys)))"

fun findS :: "('a \<Rightarrow> 's \<Rightarrow> (error + bool) \<times> 's) \<Rightarrow> 'a list \<Rightarrow> 's \<Rightarrow> (error + 'a option) \<times> 's" where
  "findS p [] s = (Inr None, s)"
| "findS p (x # xs) s =
     (case p x s of
        (Inl e, s') \<Rightarrow> (Inl e, s')
      | (Inr b, s') \<Rightarrow> if b then (Inr (Some x), s') else findS p xs s')"

text \<open>The elements of an array value, for a method called on it.\<close>

fun arrayElements :: "jsval \<Rightarrow> error + jsval list" where
  "arrayElements (VArr r xs) = Inr xs"
| "arrayElements VUndefined = Inl (TypeError ''Cannot read properties of undefined'')"
| "arrayElements VNull = Inl (TypeError ''Cannot read properties of null'')"
| "arrayElements _ = Inl Unmodelled"

subsection \<open>The host: calling and constructing caller functions\<close>

text \<open>
  A function value is run by the host. \<open>call f v s\<close> is what calling function \<open>f\<close> on the
  argument \<open>v\<close> does in the state \<open>s\<close> of the world: it returns or throws, and leaves a new
  state. \<open>ctor f s\<close> is \<open>new f()\<close>. Both are parameters of the definitions that run
  caller code, so every theorem about them holds for every behaviour of the callers'
  functions and every notion of state.
\<close>

type_synonym 's caller = "nat \<Rightarrow> jsval \<Rightarrow> 's \<Rightarrow> (error + jsval) \<times> 's"

type_synonym 's constructor = "nat \<Rightarrow> 's \<Rightarrow> (error + jsval) \<times> 's"

fun applyFunction :: "'s caller \<Rightarrow> jsval \<Rightarrow> jsval \<Rightarrow> 's \<Rightarrow> (error + jsval) \<times> 's" where
  "applyFunction call (VFun f) v s = call f v s"
| "applyFunction call _ v s = (Inl (TypeError ''is not a function''), s)"

fun newObject :: "'s constructor \<Rightarrow> jsval \<Rightarrow> 's \<Rightarrow> (error + jsval) \<times> 's" where
  "newObject ctor (VFun f) s = ctor f s"
| "newObject ctor _ s = (Inl (TypeError ''is not a constructor''), s)"

text \<open>\<open>err.message\<close> for the value \<open>err\<close> bound by a \<open>catch\<close>.\<close>

fun errorMessage :: "error \<Rightarrow> error + jsval" where
  "errorMessage (TypeError m) = Inr (VStr m)"
| "errorMessage (ReferenceError m) = Inr (VStr m)"
| "errorMessage (Thrown v) = getProperty v (KStr ''message'')"
| "errorMessage Unmodelled = Inl Unmodelled"

subsection \<open>\<open>isConstructable\<close> and \<open>hasOnlyKeys\<close>\<close>

definition isConstructable :: "'s constructor \<Rightarrow> jsval \<Rightarrow> 's \<Rightarrow> (error + bool) \<times> 's" where
  "isConstructable ctor val s =
     (let result = isFunction val in
      if result then
        (case newObject ctor val s of
           (Inr obj, s') \<Rightarrow> (Inr True, s')
         | (Inl err, s') \<Rightarrow>
             (bindE (errorMessage err) (\<lambda>m.
              bindE (callIndexOf m ''is not a constructor'') (\<lambda>i.
              bindE (isNonNegativeInteger i) (\<lambda>b. Inr (\<not> b)))), s'))
      else (Inr result, s))"

definition hasOnlyKeys :: "jsval \<Rightarrow> jsval \<Rightarrow> error + bool" where
  "hasOnlyKeys val keys =
     (if isObject val \<and> isArray keys then
        bindE (objectKeys val) (\<lambda>objKeys.
        bindE (arrayElements keys) (\<lambda>ks.
        bindE (filterE (\<lambda>key. inOperator key val) ks) (\<lambda>propertiesInKeys.
          Inr (isEqual (lengthValue propertiesInKeys) (lengthValue objKeys)
               \<and> isEqual (lengthValue objKeys) (lengthValue ks)))))
      else Inr False)"

section \<open>The built-in class guards (guards/special.ts)\<close>

text \<open>
  \<open>special.ts\<close> exports its own \<open>isNull\<close>, \<open>isFunction\<close>, \<open>isObject\<close> and \<open>isArray\<close>; they
  carry the prefix \<open>special_\<close> here. \<open>x instanceof C\<close> for a built-in class \<open>C\<close> reads
  the class tag of an object and is false on every other value.
\<close>

fun instanceOf :: "jsval \<Rightarrow> objclass \<Rightarrow> bool" where
  "instanceOf (VObj r c own inherited) k = (c = k)"
| "instanceOf _ k = False"

definition special_isNull :: "jsval \<Rightarrow> bool" where
  "special_isNull v = strictEq v VNull"

definition special_isFunction :: "jsval \<Rightarrow> bool" where
  "special_isFunction v = (typeof v = TFunction)"

definition special_isObject :: "jsval \<Rightarrow> bool" where
  "special_isObject v = (\<not> special_isNull v \<and> typeof v = TObject \<and> \<not> arrayIsArray v)"

definition special_isArray :: "jsval \<Rightarrow> bool" where
  "special_isArray v = arrayIsArray v"

definition isMap :: "jsval \<Rightarrow> bool" where
  "isMap v = instanceOf v MapObject"

definition isSet :: "jsval \<Rightarrow> bool" where
  "isSet v = instanceOf v SetObject"

definition isWeakMap :: "jsval \<Rightarrow> bool" where
  "isWeakMap v = instanceOf v WeakMapObject"

definition isWeakSet :: "jsval \<Rightarrow> bool" where
  "isWeakSet v = instanceOf v WeakSetObject"

definition isDate :: "jsval \<Rightarrow> bool" where
  "isDate v = instanceOf v DateObject"

section \<open>The matcher (Match/main.ts)\<close>

text \<open>
  \<open>const _def = Symbol("_def")\<close>: the module creates one symbol when it is loaded. It has
  an identity of its own, here \<open>0\<close>; every symbol a caller creates has another one.
\<close>

definition defaultSentinel :: jsval where
  "defaultSentinel = VSym 0"

record MatchArm =
  matchExpression :: jsval
  evaluation :: jsval

text \<open>\<open>xs[n]\<close> on an array: the element, or \<open>undefined\<close> past the end.\<close>

fun nthOrUndefined :: "jsval list \<Rightarrow> nat \<Rightarrow> jsval" where
  "nthOrUndefined [] n = VUndefined"
| "nthOrUndefined (x # xs) 0 = x"
| "nthOrUndefined (x # xs) (Suc n) = nthOrUndefined xs n"

text \<open>
  \<open>normalizeBasicMatcher\<close>: the symbol keys of the object, then its string keys, each with
  the value read under it. The parameter defaults to \<open>{}\<close>, which has no key.
\<close>

definition normalizeBasicMatcher :: "jsval \<Rightarrow> error + MatchArm list" where
  "normalizeBasicMatcher arms =
     (if arms = VUndefined then Inr []
      else
        bindE (getOwnPropertySymbols arms) (\<lambda>ownPropSymbols.
        bindE (getOwnPropertyNames arms) (\<lambda>ownPropNames.
          mapE (\<lambda>key.
                  bindE (toPropertyKey key) (\<lambda>k.
                  bindE (getProperty arms k) (\<lambda>v.
                    Inr \<lparr>matchExpression = key, evaluation = v\<rparr>)))
               (ownPropSymbols @ ownPropNames))))"

text \<open>
  The callback \<open>([matchExpression, evaluation]) => ({ matchExpression, evaluation })\<close>:
  destructuring an array takes its first two elements, \<open>undefined\<close> for a missing one, and
  throws on \<open>undefined\<close> and \<open>null\<close>. Destructuring other iterables is not modelled.
\<close>

fun destructureArm :: "jsval \<Rightarrow> error + MatchArm" where
  "destructureArm (VArr r xs) =
     Inr \<lparr>matchExpression = nthOrUndefined xs 0, evaluation = nthOrUndefined xs 1\<rparr>"
| "destructureArm VUndefined = Inl (TypeError ''undefined is not iterable'')"
| "destructureArm VNull = Inl (TypeError ''null is not iterable'')"
| "destructureArm _ = Inl Unmodelled"

definition normalizeAdvancedMatcher :: "jsval list \<Rightarrow> error + MatchArm list" where
  "normalizeAdvancedMatcher arms = bindE (filterE isNonEmptyArray arms) (mapE destructureArm)"

text \<open>
  Modelled from the spec: \<open>throwIfEmptyArray\<close> of the module \<open>ThrowIf\<close>, which is not
  among the source files. The spec describes it as the helper that fails fast when a given
  list is empty, and the error it raises for the matcher as of the generic type/value kind,
  the kind of the invalid-shape error, which the source raises as a \<open>TypeError\<close>.
\<close>

definition throwIfEmptyArray :: "'a list \<Rightarrow> string \<Rightarrow> error + unit" where
  "throwIfEmptyArray xs message = (if xs = [] then Inl (TypeError message) else Inr ())"

text \<open>
  Modelled from the spec: \<open>throwIfMissing\<close> of the module \<open>ThrowIf\<close>, which is not among
  the source files. The spec describes it as the helper that fails fast when a given value
  is absent; the source passes it the error class to raise. The value it is given here is
  the result of \<open>find\<close>, absent when that is \<open>None\<close>.
\<close>

definition throwIfMissing :: "'a option \<Rightarrow> string \<Rightarrow> (string \<Rightarrow> error) \<Rightarrow> error + unit" where
  "throwIfMissing x message errorClass =
     (case x of None \<Rightarrow> Inl (errorClass message) | Some y \<Rightarrow> Inr ())"

text \<open>The messages of the three validation errors of \<open>match\<close>.\<close>

definition invalidShapeMessage :: string where
  "invalidShapeMessage = ''`matcher` has to be either an Object or an Array''"

definition emptyMatcherMessage :: string where
  "emptyMatcherMessage = ''`matcher` has to contain at least one arm''"

definition missingDefaultMessage :: string where
  "missingDefaultMessage = ''`matcher` needs to contain a default `_def` arm''"

text \<open>
  Lines 49 to 59 of \<open>match\<close>: the first argument is the matcher, which must be an object
  or an array; an object is normalized as a basic matcher, and otherwise all the arguments
  together are normalized as an advanced matcher.
\<close>

definition normalizedArms :: "jsval list \<Rightarrow> error + MatchArm list" where
  "normalizedArms args =
     (let matcher = nthOrUndefined args 0;
          potentialRestOfMatcher = drop 1 args
      in if \<not> (isObject matcher \<or> isArray matcher)
         then Inl (TypeError invalidShapeMessage)
         else if isObject matcher then normalizeBasicMatcher matcher
         else normalizeAdvancedMatcher (matcher # potentialRestOfMatcher))"

text \<open>Lines 71 to 79: the callback that \<open>find\<close> runs on each arm to find the explicit match.\<close>

definition explicitMatchCallback :: "'s caller \<Rightarrow> jsval \<Rightarrow> MatchArm \<Rightarrow> 's \<Rightarrow> (error + bool) \<times> 's" where
  "explicitMatchCallback call val arm s =
     (if strictEq (matchExpression arm) defaultSentinel then (Inr False, s)
      else if isFunction (matchExpression arm) then
        (case applyFunction call (matchExpression arm) val s of
           (Inl e, s') \<Rightarrow> (Inl e, s')
         | (Inr r, s') \<Rightarrow> (Inr (isTrue r), s'))
      else (Inr (isEqual (matchExpression arm) val), s))"

text \<open>
  \<open>match(val)(...args)\<close>. \<open>find\<close> without caller code is \<open>List.find\<close>; its result
  \<open>undefined\<close> is \<open>None\<close>, so \<open>isPresent(explicitMatch)\<close> is the case distinction on the
  option. Reading \<open>.evaluation\<close> of an absent default arm would throw; the validation
  before it excludes that.
\<close>

definition match :: "'s caller \<Rightarrow> jsval \<Rightarrow> jsval list \<Rightarrow> 's \<Rightarrow> (error + jsval) \<times> 's" where
  "match call val args s =
     (case normalizedArms args of
        Inl e \<Rightarrow> (Inl e, s)
      | Inr arms \<Rightarrow>
         (case throwIfEmptyArray arms emptyMatcherMessage of
            Inl e \<Rightarrow> (Inl e, s)
          | Inr u \<Rightarrow>
             (let defaultArm = find (\<lambda>arm. strictEq (matchExpression arm) defaultSentinel) arms
              in case throwIfMissing defaultArm missingDefaultMessage ReferenceError of
                   Inl e \<Rightarrow> (Inl e, s)
                 | Inr u \<Rightarrow>
                    (case findS (explicitMatchCallback call val) arms s of
                       (Inl e, s') \<Rightarrow> (Inl e, s')
                     | (Inr explicitMatch, s') \<Rightarrow>
                        (case (case explicitMatch of
                                 Some arm \<Rightarrow> Some (evaluation arm)
                               | None \<Rightarrow> map_option evaluation defaultArm) of
                           None \<Rightarrow> (Inl (TypeError ''Cannot read properties of undefined''), s')
                         | Some ev \<Rightarrow>
                            if isFunction ev then applyFunction call ev val s'
                            else (Inr ev, s'))))))"

section \<open>The specification's reading of the matcher\<close>

text \<open>
  The definitions of this section are not taken from the source. They write down what the
  specification says, so that the theorems can compare the source with it.

  An arm is a default arm when its match expression is the sentinel. A non-default arm
  matches a value as the specification words it: a callable match expression is called
  with the value and matches when the call returns exactly \<open>true\<close>; any other match
  expression matches when it is strictly equal to the value. The first match is sought
  among the non-default arms, in list order.
\<close>

definition isDefaultArm :: "MatchArm \<Rightarrow> bool" where
  "isDefaultArm arm = (matchExpression arm = defaultSentinel)"

definition armMatches :: "'s caller \<Rightarrow> jsval \<Rightarrow> MatchArm \<Rightarrow> 's \<Rightarrow> (error + bool) \<times> 's" where
  "armMatches call v arm s =
     (case matchExpression arm of
        VFun f \<Rightarrow>
          (case call f v s of
             (Inl e, s') \<Rightarrow> (Inl e, s')
           | (Inr r, s') \<Rightarrow> (Inr (r = VBool True), s'))
      | literal \<Rightarrow> (Inr (strictEq literal v), s))"

definition firstMatch :: "'s caller \<Rightarrow> jsval \<Rightarrow> MatchArm list \<Rightarrow> 's \<Rightarrow> (error + MatchArm option) \<times> 's" where
  "firstMatch call v arms s = findS (armMatches call v) (filter (\<lambda>arm. \<not> isDefaultArm arm) arms) s"

text \<open>
  First-match-wins over a given list of arms, as the specification describes \<open>match\<close>
  after normalization: an empty list and a list without a default arm are refused; otherwise
  the first matching arm is selected, else the first default arm, and the evaluation of the
  selected arm gives the result.
\<close>

definition firstMatchWins :: "'s caller \<Rightarrow> jsval \<Rightarrow> MatchArm list \<Rightarrow> 's \<Rightarrow> (error + jsval) \<times> 's" where
  "firstMatchWins call v arms s =
     (if arms = [] then (Inl (TypeError emptyMatcherMessage), s)
      else (case find isDefaultArm arms of
              None \<Rightarrow> (Inl (ReferenceError missingDefaultMessage), s)
            | Some d \<Rightarrow>
                (case firstMatch call v arms s of
                   (Inl e, s') \<Rightarrow> (Inl e, s')
                 | (Inr m, s') \<Rightarrow>
                     (let ev = evaluation (case m of Some a \<Rightarrow> a | None \<Rightarrow> d)
                      in if isFunction ev then applyFunction call ev v s' else (Inr ev, s')))))"

text \<open>
  The specification's advanced form: the entries of the sequence and the trailing
  arguments, filtered to the two-element sequences, each of which becomes an arm.
\<close>

fun isTwoElementSequence :: "jsval \<Rightarrow> bool" where
  "isTwoElementSequence (VArr r [a, b]) = True"
| "isTwoElementSequence _ = False"

fun armOfEntry :: "jsval \<Rightarrow> MatchArm" where
  "armOfEntry (VArr r xs) =
     \<lparr>matchExpression = nthOrUndefined xs 0, evaluation = nthOrUndefined xs 1\<rparr>"
| "armOfEntry _ = \<lparr>matchExpression = VUndefined, evaluation = VUndefined\<rparr>"

fun sequenceEntries :: "jsval \<Rightarrow> jsval list" where
  "sequenceEntries (VArr r xs) = xs"
| "sequenceEntries _ = []"

definition specAdvancedArms :: "jsval \<Rightarrow> jsval list \<Rightarrow> MatchArm list" where
  "specAdvancedArms sequence trailing =
     map armOfEntry (filter isTwoElementSequence (sequenceEntries sequence @ trailing))"

text \<open>
  What the source does instead. It keeps the arguments that are arrays with an element, and
  in the basic form the match expression of an arm is the value that names a key of the
  record.
\<close>

fun keyValue :: "propkey \<Rightarrow> jsval" where
  "keyValue (KSym n) = VSym n"
| "keyValue (KStr str) = VStr str"

fun isNonEmptyArrayValue :: "jsval \<Rightarrow> bool" where
  "isNonEmptyArrayValue (VArr r (x # xs)) = True"
| "isNonEmptyArrayValue _ = False"

text \<open>
  The arms of a record in the caller's order: one arm for each property, in creation order,
  with the value of the property as its evaluation.
\<close>

definition callerOrderArms :: "(propkey \<times> jsval) list \<Rightarrow> MatchArm list" where
  "callerOrderArms own = map (\<lambda>(k, x). \<lparr>matchExpression = keyValue k, evaluation = x\<rparr>) own"

text \<open>A primitive value: any value that is not an array, an object or a function.\<close>

fun isPrimitive :: "jsval \<Rightarrow> bool" where
  "isPrimitive (VArr r xs) = False"
| "isPrimitive (VObj r c own inherited) = False"
| "isPrimitive (VFun f) = False"
| "isPrimitive _ = True"

section \<open>Callers used in the examples\<close>

text \<open>
  The functions of the specification's scenarios. Function \<open>1\<close> is the library's own
  \<open>isPositiveInteger\<close>, passed as a match expression; function \<open>2\<close> is the evaluation
  \<open>(v) => `positive:${v}`\<close>; function \<open>3\<close> throws its argument; function \<open>4\<close>
  returns the string \<open>yes\<close>, which is truthy and not a boolean; any other function
  returns \<open>undefined\<close>. \<open>loggedCall\<close> runs such functions in a world whose state
  is the list of the calls made so far.
\<close>

definition scenarioFunctions :: "nat \<Rightarrow> jsval \<Rightarrow> error + jsval" where
  "scenarioFunctions f v =
     (if f = 1 then bindE (isPositiveInteger v) (\<lambda>b. Inr (VBool b))
      else if f = 2 then bindE (toStringJs v) (\<lambda>str. Inr (VStr (''positive:'' @ str)))
      else if f = 3 then Inl (Thrown v)
      else if f = 4 then Inr (VStr ''yes'')
      else Inr VUndefined)"

definition loggedCall :: "(nat \<Rightarrow> jsval \<Rightarrow> error + jsval) \<Rightarrow> (nat \<times> jsval) list caller" where
  "loggedCall body f v calls = (body f v, calls @ [(f, v)])"

text \<open>
  Constructions, in a world whose state counts them. Function \<open>1\<close> is an ordinary
  constructor; function \<open>2\<close> is \<open>function () { throw null }\<close>; function \<open>3\<close> is an arrow
  function, which the engine refuses to construct; any other function throws an error
  object with the message \<open>boom\<close>.
\<close>

definition scenarioConstructors :: "nat constructor" where
  "scenarioConstructors f n =
     (if f = 1 then (Inr (VObj 100 OtherObject [] []), Suc n)
      else if f = 2 then (Inl (Thrown VNull), Suc n)
      else if f = 3 then (Inl (TypeError ''f is not a constructor''), n)
      else (Inl (Thrown (VObj 101 OtherObject [(KStr ''message'', VStr ''boom'')] [])), Suc n))"

section \<open>Facts about the predicates and the normalizers\<close>

lemma bindE_Inr [simp]: "bindE (Inr x) f = f x"
  by (simp add: bindE_def)

lemma bindE_Inl [simp]: "bindE (Inl e) f = Inl e"
  by (simp add: bindE_def)

lemma isFunction_iff: "isFunction v \<longleftrightarrow> (\<exists>f. v = VFun f)"
  by (cases v) (simp_all add: isFunction_def isPresent_def isMissing_def isNull_def isUndefined_def)

lemma isArray_iff: "isArray v \<longleftrightarrow> (\<exists>r xs. v = VArr r xs)"
  by (cases v) (simp_all add: isArray_def isPresent_def isMissing_def isNull_def isUndefined_def)

lemma isObject_iff: "isObject v \<longleftrightarrow> (\<exists>r c own inherited. v = VObj r c own inherited)"
  by (cases v) (simp_all add: isObject_def isArray_def isPresent_def isMissing_def isNull_def isUndefined_def)

lemma isTrue_iff: "isTrue v \<longleftrightarrow> v = VBool True"
  by (cases v) (auto simp add: isTrue_def isBoolean_def isPresent_def isMissing_def isNull_def isUndefined_def)

lemma strictEq_defaultSentinel: "strictEq x defaultSentinel \<longleftrightarrow> x = defaultSentinel"
  by (cases x) (simp_all add: defaultSentinel_def)

lemma isNonEmptyArray_eq: "isNonEmptyArray v = Inr (isNonEmptyArrayValue v)"
proof (cases v)
  case (VArr r xs)
  then show ?thesis
    by (cases xs) (simp_all add: isNonEmptyArray_def andAlso_def bindE_def isArray_iff lengthValue_def greaterThan_def)
qed (simp_all add: isNonEmptyArray_def andAlso_def isArray_iff)

lemma filterE_isNonEmptyArray: "filterE isNonEmptyArray xs = Inr (filter isNonEmptyArrayValue xs)"
  by (induction xs) (simp_all add: isNonEmptyArray_eq bindE_def)

lemma destructureArm_array: "isNonEmptyArrayValue x \<Longrightarrow> destructureArm x = Inr (armOfEntry x)"
  by (cases x) simp_all

lemma mapE_destructureArm:
  "list_all isNonEmptyArrayValue xs \<Longrightarrow> mapE destructureArm xs = Inr (map armOfEntry xs)"
  by (induction xs) (simp_all add: destructureArm_array bindE_def)

lemma normalizeAdvancedMatcher_eq:
  "normalizeAdvancedMatcher args = Inr (map armOfEntry (filter isNonEmptyArrayValue args))"
  by (simp add: normalizeAdvancedMatcher_def filterE_isNonEmptyArray bindE_def mapE_destructureArm list_all_iff)

section \<open>The matcher against the specification\<close>

lemma find_default: "find (\<lambda>arm. strictEq (matchExpression arm) defaultSentinel) arms = find isDefaultArm arms"
  by (simp add: strictEq_defaultSentinel isDefaultArm_def [abs_def])

lemma explicitMatchCallback_eq:
  "explicitMatchCallback call v arm s =
     (if isDefaultArm arm then (Inr False, s) else armMatches call v arm s)"
  by (cases "matchExpression arm")
     (auto simp add: explicitMatchCallback_def armMatches_def isDefaultArm_def strictEq_defaultSentinel
        isFunction_iff isTrue_iff isEqual_def split: prod.splits sum.splits)

lemma findS_explicitMatchCallback:
  "findS (explicitMatchCallback call v) arms s = firstMatch call v arms s"
  unfolding firstMatch_def
  by (induction arms arbitrary: s)
     (auto simp add: explicitMatchCallback_eq split: prod.splits sum.splits)

lemma match_spec:
  "match call v args s =
     (case normalizedArms args of
        Inl e \<Rightarrow> (Inl e, s)
      | Inr arms \<Rightarrow>
          if arms = [] then (Inl (TypeError emptyMatcherMessage), s)
          else (case find isDefaultArm arms of
                  None \<Rightarrow> (Inl (ReferenceError missingDefaultMessage), s)
                | Some d \<Rightarrow>
                    (case firstMatch call v arms s of
                       (Inl e, s') \<Rightarrow> (Inl e, s')
                     | (Inr m, s') \<Rightarrow>
                         (let ev = evaluation (case m of Some a \<Rightarrow> a | None \<Rightarrow> d)
                          in if isFunction ev then applyFunction call ev v s' else (Inr ev, s')))))"
  by (auto simp add: match_def throwIfEmptyArray_def throwIfMissing_def find_default
        findS_explicitMatchCallback Let_def split: sum.splits option.splits prod.splits)


lemma normalizedArms_advanced:
  "normalizedArms (VArr r xs # rest) = Inr (map armOfEntry (filter isNonEmptyArrayValue (VArr r xs # rest)))"
  by (simp add: normalizedArms_def Let_def isArray_iff isObject_iff normalizeAdvancedMatcher_eq)

text \<open>
  Claim C1. For every input value and every normalized arm list with a default arm,
  \<open>match\<close> scans the non-default arms in list order (\<open>firstMatch\<close>). An arm with a
  callable match expression matches exactly when the call on the input value returns the
  boolean \<open>true\<close>, any other arm exactly when its match expression is strictly equal to
  the input value (\<open>armMatches\<close>). The evaluation of the first matching arm is used, and
  the evaluation of the (first) default arm when no non-default arm matches. An exception of
  a match expression ends the scan and is the outcome of \<open>match\<close>.
\<close>

theorem match_selects_first_matching_arm:
  assumes "normalizedArms args = Inr arms"
    and "find isDefaultArm arms = Some d"
  shows "match call v args s =
     (case firstMatch call v arms s of
        (Inl e, s') \<Rightarrow> (Inl e, s')
      | (Inr m, s') \<Rightarrow>
          (let ev = evaluation (case m of Some a \<Rightarrow> a | None \<Rightarrow> d)
           in if isFunction ev then applyFunction call ev v s' else (Inr ev, s')))"
proof -
  from assms(2) have "arms \<noteq> []" by auto
  with assms show ?thesis by (simp add: match_spec)
qed

lemmas scenario_eval =
  scenarioFunctions_def loggedCall_def firstMatch_def armMatches_def isDefaultArm_def
  defaultSentinel_def isPositiveInteger_def andAlso_def bindE_def isNumber_def isPresent_def
  isMissing_def isNull_def isUndefined_def greaterThan_def isFunction_iff

theorem match_selects_first_matching_arm_witness:
  "match (loggedCall scenarioFunctions) (VNum (Finite 3))
     [VArr 1 [VFun 4, VStr ''never''], VArr 2 [VFun 1, VStr ''pos''],
      VArr 3 [VNum (Finite 3), VStr ''three''], VArr 4 [defaultSentinel, VStr ''other'']] []
   = (Inr (VStr ''pos''), [(4, VNum (Finite 3)), (1, VNum (Finite 3))])
   \<and> match (loggedCall scenarioFunctions) (VNum (Finite 3))
     [VArr 1 [VFun 3, VStr ''never''], VArr 2 [VFun 1, VStr ''pos''],
      VArr 4 [defaultSentinel, VStr ''other'']] []
   = (Inl (Thrown (VNum (Finite 3))), [(3, VNum (Finite 3))])"
proof -
  let ?v = "VNum (Finite 3)"
  let ?d = "\<lparr>matchExpression = defaultSentinel, evaluation = VStr ''other''\<rparr>"
  let ?args = "[VArr 1 [VFun 4, VStr ''never''], VArr 2 [VFun 1, VStr ''pos''],
      VArr 3 [?v, VStr ''three''], VArr 4 [defaultSentinel, VStr ''other'']]"
  let ?arms = "[\<lparr>matchExpression = VFun 4, evaluation = VStr ''never''\<rparr>,
      \<lparr>matchExpression = VFun 1, evaluation = VStr ''pos''\<rparr>,
      \<lparr>matchExpression = ?v, evaluation = VStr ''three''\<rparr>, ?d]"
  let ?args' = "[VArr 1 [VFun 3, VStr ''never''], VArr 2 [VFun 1, VStr ''pos''],
      VArr 4 [defaultSentinel, VStr ''other'']]"
  let ?arms' = "[\<lparr>matchExpression = VFun 3, evaluation = VStr ''never''\<rparr>,
      \<lparr>matchExpression = VFun 1, evaluation = VStr ''pos''\<rparr>, ?d]"
  have n: "normalizedArms ?args = Inr ?arms" and n': "normalizedArms ?args' = Inr ?arms'"
    by (simp_all add: normalizedArms_advanced)
  have d: "find isDefaultArm ?arms = Some ?d" and d': "find isDefaultArm ?arms' = Some ?d"
    by (simp_all add: isDefaultArm_def defaultSentinel_def)
  show ?thesis
    using match_selects_first_matching_arm [OF n d, of "loggedCall scenarioFunctions" ?v "[]"]
      match_selects_first_matching_arm [OF n' d', of "loggedCall scenarioFunctions" ?v "[]"]
    by (simp add: scenario_eval)
qed

text \<open>
  What the scan computes when the callers' functions neither throw nor change the world,
  so that a call is a function \<open>g\<close> of the callee and its argument: the first arm of the
  list that is not a default arm and whose match expression is a function returning \<open>true\<close>
  on the input value, or a value strictly equal to it.
\<close>

lemma firstMatch_pure:
  assumes "\<And>f x t. call f x t = (Inr (g f x), t)"
  shows "firstMatch call v arms s =
     (Inr (find (\<lambda>arm. \<not> isDefaultArm arm \<and>
                 (case matchExpression arm of
                    VFun f \<Rightarrow> g f v = VBool True
                  | literal \<Rightarrow> strictEq literal v)) arms), s)"
  unfolding firstMatch_def
proof (induction arms)
  case Nil
  show ?case by simp
next
  case (Cons a arms)
  show ?case
  proof (cases "isDefaultArm a")
    case True
    with Cons show ?thesis by simp
  next
    case False
    with Cons show ?thesis
      by (cases "matchExpression a") (simp_all add: armMatches_def assms)
  qed
qed

text \<open>
  Claim C5. Whatever arm is selected after the scan has left the world in state \<open>s1\<close>:
  if its evaluation is a function \<open>f\<close>, the outcome of \<open>match\<close> is the outcome of the one
  call of \<open>f\<close> on the original input value in \<open>s1\<close>; if its evaluation is not a function,
  \<open>match\<close> returns it as it is and leaves the world in \<open>s1\<close>, so nothing was called.
\<close>

theorem match_result_production:
  assumes "normalizedArms args = Inr arms"
    and "find isDefaultArm arms = Some d"
    and "firstMatch call v arms s = (Inr m, s1)"
    and "selected = (case m of Some a \<Rightarrow> a | None \<Rightarrow> d)"
  shows "(evaluation selected = VFun f \<longrightarrow> match call v args s = call f v s1)
       \<and> ((\<forall>g. evaluation selected \<noteq> VFun g) \<longrightarrow> match call v args s = (Inr (evaluation selected), s1))"
proof -
  from assms(2) have "arms \<noteq> []" by auto
  with assms show ?thesis by (auto simp add: match_spec isFunction_iff)
qed

theorem match_result_production_witness:
  "match (loggedCall scenarioFunctions) (VNum (Finite 3))
     [VArr 1 [VFun 1, VFun 2], VArr 2 [defaultSentinel, VFun 4]] []
   = (Inr (VStr ''positive:3''), [(1, VNum (Finite 3)), (2, VNum (Finite 3))])
   \<and> match (loggedCall scenarioFunctions) (VNum (Finite 3))
     [VArr 1 [VFun 1, VStr ''pos''], VArr 2 [defaultSentinel, VFun 4]] []
   = (Inr (VStr ''pos''), [(1, VNum (Finite 3))])"
proof -
  let ?v = "VNum (Finite 3)"
  let ?a1 = "\<lparr>matchExpression = VFun 1, evaluation = VFun 2\<rparr>"
  let ?a2 = "\<lparr>matchExpression = VFun 1, evaluation = VStr ''pos''\<rparr>"
  let ?d = "\<lparr>matchExpression = defaultSentinel, evaluation = VFun 4\<rparr>"
  have n1: "normalizedArms [VArr 1 [VFun 1, VFun 2], VArr 2 [defaultSentinel, VFun 4]] = Inr [?a1, ?d]"
    by (simp add: normalizedArms_advanced)
  have n2: "normalizedArms [VArr 1 [VFun 1, VStr ''pos''], VArr 2 [defaultSentinel, VFun 4]] = Inr [?a2, ?d]"
    by (simp add: normalizedArms_advanced)
  have d1: "find isDefaultArm [?a1, ?d] = Some ?d" and d2: "find isDefaultArm [?a2, ?d] = Some ?d"
    by (simp_all add: isDefaultArm_def defaultSentinel_def)
  have f1: "firstMatch (loggedCall scenarioFunctions) ?v [?a1, ?d] [] = (Inr (Some ?a1), [(1, ?v)])"
    and f2: "firstMatch (loggedCall scenarioFunctions) ?v [?a2, ?d] [] = (Inr (Some ?a2), [(1, ?v)])"
    by (simp_all add: scenario_eval)
  from match_result_production [OF n1 d1 f1, of ?a1 2] match_result_production [OF n2 d2 f2, of ?a2 0]
  show ?thesis
    by (simp add: scenario_eval decimalDigits.simps digitChar_def)
qed

text \<open>
  Claim C6. For every input value, \<open>match(v)([])\<close> raises the empty-matcher error, and
  \<open>match(v)([[x, y]])\<close> raises the missing-default error, as does \<open>match(v)([x, y])\<close>
  when \<open>x\<close> is not the default sentinel. The missing-default error is a
  \<open>ReferenceError\<close>; the empty-matcher error and the invalid-shape error (raised for
  instance by a number as matcher) are \<open>TypeError\<close>s, and no \<open>ReferenceError\<close> is a
  \<open>TypeError\<close>.
\<close>

theorem match_validation_errors:
  "match call v [VArr r []] s = (Inl (TypeError emptyMatcherMessage), s)
   \<and> match call v [VArr r [VArr r' [x, y]]] s = (Inl (ReferenceError missingDefaultMessage), s)
   \<and> (x \<noteq> defaultSentinel \<longrightarrow>
        match call v [VArr r [x, y]] s = (Inl (ReferenceError missingDefaultMessage), s))
   \<and> match call v [VNum n] s = (Inl (TypeError invalidShapeMessage), s)
   \<and> (\<forall>m m'. ReferenceError m \<noteq> TypeError m')"
proof -
  have empty: "match call v [VArr r []] s = (Inl (TypeError emptyMatcherMessage), s)"
    by (simp add: match_spec normalizedArms_advanced)
  have nested: "match call v [VArr r [VArr r' [x, y]]] s = (Inl (ReferenceError missingDefaultMessage), s)"
    by (simp add: match_spec normalizedArms_advanced isDefaultArm_def defaultSentinel_def)
  have flat: "match call v [VArr r [x, y]] s = (Inl (ReferenceError missingDefaultMessage), s)"
    if "x \<noteq> defaultSentinel"
    using that by (simp add: match_spec normalizedArms_advanced isDefaultArm_def)
  have shape: "match call v [VNum n] s = (Inl (TypeError invalidShapeMessage), s)"
    by (simp add: match_spec normalizedArms_def isObject_iff isArray_iff)
  from empty nested flat shape show ?thesis by simp
qed

theorem match_validation_errors_witness:
  "match (loggedCall scenarioFunctions) (VNum (Finite 3)) [VArr 1 [VNum (Finite 1), VStr ''one'']] []
     = (Inl (ReferenceError missingDefaultMessage), [])"
  using match_validation_errors [of "loggedCall scenarioFunctions" "VNum (Finite 3)" 1 "[]" 2
      "VNum (Finite 1)" "VStr ''one''" NaN]
  by (simp add: defaultSentinel_def)


lemma mapE_eq: "(\<And>x. x \<in> set xs \<Longrightarrow> f x = Inr (g x)) \<Longrightarrow> mapE f xs = Inr (map g xs)"
  by (induction xs) (simp_all add: bindE_def)

lemma normalizeBasicMatcher_object:
  "normalizeBasicMatcher (VObj r c own inherited) =
     Inr (map (\<lambda>n. \<lparr>matchExpression = VSym n, evaluation = propertyValue own inherited (KSym n)\<rparr>)
            (symbolKeys own)
          @ map (\<lambda>s. \<lparr>matchExpression = VStr s, evaluation = propertyValue own inherited (KStr s)\<rparr>)
              (orderedStringKeys (stringKeys own)))"
proof -
  let ?g = "\<lambda>key. \<lparr>matchExpression = key,
      evaluation = propertyValue own inherited (case key of VSym n \<Rightarrow> KSym n | VStr s \<Rightarrow> KStr s)\<rparr>"
  let ?keys = "map VSym (symbolKeys own) @ map VStr (orderedStringKeys (stringKeys own))"
  have "mapE (\<lambda>key. bindE (toPropertyKey key) (\<lambda>k. bindE (getProperty (VObj r c own inherited) k)
          (\<lambda>v. Inr \<lparr>matchExpression = key, evaluation = v\<rparr>))) ?keys = Inr (map ?g ?keys)"
    by (rule mapE_eq) (auto simp add: bindE_def)
  then show ?thesis
    by (simp add: normalizeBasicMatcher_def bindE_def comp_def)
qed

lemma normalizedArms_basic:
  "normalizedArms (VObj r c own inherited # rest) = normalizeBasicMatcher (VObj r c own inherited)"
  by (simp add: normalizedArms_def Let_def isObject_iff)

lemmas key_order_eval =
  orderedStringKeys_def indexedKeys_def arrayIndex_def isDigit_def digitValue_def propertyValue_def

text \<open>
  Claim C3, as amended. The record \<open>{ [_def]: "other", 5: "five" }\<close> has the keys \<open>_def\<close>
  and the string \<open>"5"\<close>, since the key of a property is a symbol or a string. Against it
  \<open>match("5")\<close> returns \<open>"five"\<close>, while \<open>match(5)\<close> and \<open>match(6)\<close> return \<open>"other"\<close>:
  the number \<open>5\<close> is not strictly equal to the key \<open>"5"\<close>.
\<close>

theorem basic_form_scenario:
  "toPropertyKey (VNum (Finite 5)) = Inr (KStr ''5'')
   \<and> toPropertyKey defaultSentinel = Inr (KSym 0)
   \<and> match call (VStr ''5'') [VObj r c [(KSym 0, VStr ''other''), (KStr ''5'', VStr ''five'')] inherited] s
       = (Inr (VStr ''five''), s)
   \<and> match call (VNum (Finite 5)) [VObj r c [(KSym 0, VStr ''other''), (KStr ''5'', VStr ''five'')] inherited] s
       = (Inr (VStr ''other''), s)
   \<and> match call (VNum (Finite 6)) [VObj r c [(KSym 0, VStr ''other''), (KStr ''5'', VStr ''five'')] inherited] s
       = (Inr (VStr ''other''), s)"
proof -
  let ?obj = "VObj r c [(KSym 0, VStr ''other''), (KStr ''5'', VStr ''five'')] inherited"
  have arms: "normalizedArms [?obj] =
      Inr [\<lparr>matchExpression = VSym 0, evaluation = VStr ''other''\<rparr>,
           \<lparr>matchExpression = VStr ''5'', evaluation = VStr ''five''\<rparr>]"
    by (simp add: normalizedArms_basic normalizeBasicMatcher_object key_order_eval)
  have k: "toPropertyKey (VNum (Finite 5)) = Inr (KStr ''5'')"
    by (simp add: bindE_def decimalDigits.simps digitChar_def)
  show ?thesis
    unfolding k match_spec arms
    by (simp add: defaultSentinel_def isDefaultArm_def firstMatch_def armMatches_def isFunction_iff)
qed

text \<open>
  The claim C3 as stated fails: \<open>match(5)({ [_def]: "other", 5: "five" })\<close> is
  \<open>"other"\<close>, not \<open>"five"\<close>.
\<close>

theorem basic_form_numeric_key_counterexample:
  "match (loggedCall scenarioFunctions) (VNum (Finite 5))
     [VObj 1 OtherObject [(KSym 0, VStr ''other''), (KStr ''5'', VStr ''five'')] []] []
     = (Inr (VStr ''other''), [])
   \<and> match (loggedCall scenarioFunctions) (VNum (Finite 5))
     [VObj 1 OtherObject [(KSym 0, VStr ''other''), (KStr ''5'', VStr ''five'')] []] []
     \<noteq> (Inr (VStr ''five''), [])"
proof -
  have arms: "normalizedArms [VObj 1 OtherObject [(KSym 0, VStr ''other''), (KStr ''5'', VStr ''five'')] []] =
      Inr [\<lparr>matchExpression = VSym 0, evaluation = VStr ''other''\<rparr>,
           \<lparr>matchExpression = VStr ''5'', evaluation = VStr ''five''\<rparr>]"
    by (simp add: normalizedArms_basic normalizeBasicMatcher_object key_order_eval)
  show ?thesis
    unfolding match_spec arms
    by (simp add: defaultSentinel_def isDefaultArm_def firstMatch_def armMatches_def isFunction_iff)
qed

text \<open>
  Claim C4, as amended. With the arms passed as separate arguments,
  \<open>match(-3)([isPositiveInteger, "pos"], [_def, "not-pos"])\<close> returns \<open>"not-pos"\<close> and
  \<open>match(3)([isPositiveInteger, (v) => `positive:${v}`], [_def, "n/a"])\<close> returns
  \<open>"positive:3"\<close>. The calls made are recorded after those made before: the match
  expression is called once on the input value, and the evaluation of the selected arm once
  on the input value when it is a function.
\<close>

theorem advanced_form_scenario:
  "match (loggedCall scenarioFunctions) (VNum (Finite (- 3)))
     [VArr r1 [VFun 1, VStr ''pos''], VArr r2 [defaultSentinel, VStr ''not-pos'']] calls
     = (Inr (VStr ''not-pos''), calls @ [(1, VNum (Finite (- 3)))])
   \<and> match (loggedCall scenarioFunctions) (VNum (Finite 3))
     [VArr r1 [VFun 1, VFun 2], VArr r2 [defaultSentinel, VStr ''n/a'']] calls
     = (Inr (VStr ''positive:3''), calls @ [(1, VNum (Finite 3)), (2, VNum (Finite 3))])"
  by (simp add: match_spec normalizedArms_advanced scenario_eval decimalDigits.simps digitChar_def)

text \<open>
  The claim C4 as stated fails: with the arms wrapped in one array, as in
  \<open>match(-3)([[isPositiveInteger, "pos"], [_def, "not-pos"]])\<close>, the only argument is read
  as a single arm whose match expression is the array \<open>[isPositiveInteger, "pos"]\<close>, no arm
  carries the sentinel, and the call raises the missing-default error.
\<close>

theorem advanced_form_nested_counterexample:
  "match (loggedCall scenarioFunctions) (VNum (Finite (- 3)))
     [VArr 1 [VArr 2 [VFun 1, VStr ''pos''], VArr 3 [defaultSentinel, VStr ''not-pos'']]] []
     = (Inl (ReferenceError missingDefaultMessage), [])
   \<and> match (loggedCall scenarioFunctions) (VNum (Finite 3))
     [VArr 1 [VArr 2 [VFun 1, VFun 2], VArr 3 [defaultSentinel, VStr ''n/a'']]] []
     = (Inl (ReferenceError missingDefaultMessage), [])"
  by (simp add: match_spec normalizedArms_advanced isDefaultArm_def defaultSentinel_def)

text \<open>
  Claim C2, as amended. The advanced form never fails to normalize. Its entries are the
  call's arguments themselves, the first one included. The arguments that are arrays with at
  least one element are kept, in order, and each becomes the arm of its first two elements
  (\<open>undefined\<close> for a missing second element, elements after the second ignored); every
  other argument is dropped without an error.
\<close>

theorem advanced_form_normalization:
  "normalizeAdvancedMatcher args = Inr (map armOfEntry (filter isNonEmptyArrayValue args))
   \<and> (isArray matcher \<longrightarrow>
        normalizedArms (matcher # rest)
          = Inr (map armOfEntry (filter isNonEmptyArrayValue (matcher # rest))))"
  by (auto simp add: normalizeAdvancedMatcher_eq isArray_iff normalizedArms_advanced)

theorem advanced_form_normalization_witness:
  "normalizedArms [VArr 1 [defaultSentinel], VNum (Finite 7), VArr 2 [],
      VArr 3 [VStr ''a'', VStr ''b'', VStr ''c'']]
     = Inr [\<lparr>matchExpression = defaultSentinel, evaluation = VUndefined\<rparr>,
            \<lparr>matchExpression = VStr ''a'', evaluation = VStr ''b''\<rparr>]"
  using advanced_form_normalization [of "[]" "VArr 1 [defaultSentinel]"
      "[VNum (Finite 7), VArr 2 [], VArr 3 [VStr ''a'', VStr ''b'', VStr ''c'']]"]
  by (simp add: isArray_iff)

text \<open>
  The claim C2 as stated fails. For \<open>match(v)([[_def, "d"]])\<close> the source builds one arm
  from the argument \<open>[[_def, "d"]]\<close> itself, where the claim has the arm of its entry
  \<open>[_def, "d"]\<close>. For \<open>match(v)([_def])\<close> the source keeps the one-element array as the arm
  of \<open>_def\<close> and \<open>undefined\<close>, where the claim drops everything.
\<close>

theorem advanced_form_entries_counterexample:
  "normalizeAdvancedMatcher [VArr 1 [VArr 2 [defaultSentinel, VStr ''d'']]]
     = Inr [\<lparr>matchExpression = VArr 2 [defaultSentinel, VStr ''d''], evaluation = VUndefined\<rparr>]
   \<and> specAdvancedArms (VArr 1 [VArr 2 [defaultSentinel, VStr ''d'']]) []
     = [\<lparr>matchExpression = defaultSentinel, evaluation = VStr ''d''\<rparr>]
   \<and> normalizeAdvancedMatcher [VArr 3 [defaultSentinel]]
     = Inr [\<lparr>matchExpression = defaultSentinel, evaluation = VUndefined\<rparr>]
   \<and> specAdvancedArms (VArr 3 [defaultSentinel]) [] = []"
  by (simp add: normalizeAdvancedMatcher_eq specAdvancedArms_def defaultSentinel_def)

section \<open>The predicate layer is total where its guards protect it\<close>

lemma isString_iff: "isString v \<longleftrightarrow> (\<exists>str. v = VStr str)"
  by (cases v) (simp_all add: isString_def isPresent_def isMissing_def isNull_def isUndefined_def)

lemma isNumber_iff: "isNumber v \<longleftrightarrow> (\<exists>n. v = VNum n \<and> n \<noteq> NaN)"
proof (cases v)
  case (VNum n)
  then show ?thesis
    by (cases n) (simp_all add: isNumber_def isPresent_def isMissing_def isNull_def isUndefined_def)
qed (simp_all add: isNumber_def isPresent_def isMissing_def isNull_def isUndefined_def)

lemma isNonEmptyString_eq: "isNonEmptyString v = Inr (\<exists>str. v = VStr str \<and> str \<noteq> [])"
  by (cases v)
     (simp_all add: isNonEmptyString_def andAlso_def bindE_def isString_iff lengthValue_def greaterThan_def)

lemma isNonEmptyArray_eq': "isNonEmptyArray v = Inr (\<exists>r xs. v = VArr r xs \<and> xs \<noteq> [])"
  by (cases v)
     (simp_all add: isNonEmptyArray_def andAlso_def bindE_def isArray_iff lengthValue_def greaterThan_def)

lemma hasOneItem_eq: "hasOneItem v = Inr (\<exists>r x. v = VArr r [x])"
proof (cases v)
  case (VArr r xs)
  then show ?thesis
    by (cases xs) (auto simp add: hasOneItem_def andAlso_def bindE_def isArray_iff lengthValue_def)
qed (simp_all add: hasOneItem_def andAlso_def isArray_iff)

lemma hasMultipleItems_eq: "hasMultipleItems v = Inr (\<exists>r xs. v = VArr r xs \<and> 1 < length xs)"
  by (cases v)
     (simp_all add: hasMultipleItems_def andAlso_def bindE_def isArray_iff lengthValue_def greaterThan_def)

lemma isPositiveInteger_eq: "isPositiveInteger v = Inr (\<exists>q. v = VNum (Finite q) \<and> q \<in> \<int> \<and> 0 < q)"
proof (cases v)
  case (VNum n)
  then show ?thesis
    by (cases n)
       (auto simp add: isPositiveInteger_def andAlso_def isNumber_iff greaterThan_def elim: Ints_cases)
qed (simp_all add: isPositiveInteger_def andAlso_def isNumber_iff)

lemma isNonNegativeInteger_eq:
  "isNonNegativeInteger v = Inr (\<exists>q. v = VNum (Finite q) \<and> q \<in> \<int> \<and> 0 \<le> q)"
proof (cases v)
  case (VNum n)
  then show ?thesis
    by (cases n)
       (auto simp add: isNonNegativeInteger_def andAlso_def isNumber_iff greaterEq_def elim: Ints_cases)
qed (simp_all add: isNonNegativeInteger_def andAlso_def isNumber_iff)

lemma isConstructable_not_function:
  "\<not> isFunction v \<Longrightarrow> isConstructable ctor v s = (Inr False, s)"
  by (simp add: isConstructable_def)

lemma isConstructable_constructed:
  "ctor f s = (Inr obj, s') \<Longrightarrow> isConstructable ctor (VFun f) s = (Inr True, s')"
  by (simp add: isConstructable_def isFunction_iff)

lemma isNonNegativeInteger_of_int:
  "isNonNegativeInteger (VNum (Finite (of_int i))) = Inr (0 \<le> i)"
  by (simp add: isNonNegativeInteger_eq)

lemma isConstructable_type_error:
  "ctor f s = (Inl (TypeError m), s') \<Longrightarrow>
     isConstructable ctor (VFun f) s = (Inr (stringIndexOf m ''is not a constructor'' < 0), s')"
  by (simp add: isConstructable_def isFunction_iff isNonNegativeInteger_of_int not_le)

lemma isConstructable_error_object:
  "ctor f s = (Inl (Thrown (VObj r c own inherited)), s') \<Longrightarrow>
   propertyValue own inherited (KStr ''message'') = VStr m \<Longrightarrow>
     isConstructable ctor (VFun f) s = (Inr (stringIndexOf m ''is not a constructor'' < 0), s')"
  by (simp add: isConstructable_def isFunction_iff isNonNegativeInteger_of_int not_le)

lemma filterE_total: "(\<And>x. x \<in> set xs \<Longrightarrow> \<exists>b. p x = Inr b) \<Longrightarrow> \<exists>ys. filterE p xs = Inr ys"
proof (induction xs)
  case Nil
  then show ?case by simp
next
  case (Cons x xs)
  then obtain b ys where "p x = Inr b" "filterE p xs = Inr ys"
    by (metis list.set_intros(1,2))
  then show ?case by (simp add: bindE_def)
qed

lemma hasOnlyKeys_other: "\<not> (isObject val \<and> isArray keys) \<Longrightarrow> hasOnlyKeys val keys = Inr False"
  by (auto simp add: hasOnlyKeys_def)

lemma toPropertyKey_primitive: "isPrimitive k \<Longrightarrow> \<exists>pk. toPropertyKey k = Inr pk"
proof (cases k)
  case (VNum n)
  then show ?thesis by (cases n) simp_all
qed simp_all

lemma hasOnlyKeys_primitive_keys:
  assumes "\<forall>k\<in>set ks. isPrimitive k"
  shows "\<exists>b. hasOnlyKeys val (VArr r ks) = Inr b"
proof (cases "isObject val")
  case False
  then show ?thesis by (auto simp add: hasOnlyKeys_other)
next
  case True
  then obtain r' c own inherited where val: "val = VObj r' c own inherited"
    by (auto simp add: isObject_iff)
  have "\<exists>ys. filterE (\<lambda>key. inOperator key val) ks = Inr ys"
  proof (rule filterE_total)
    fix k assume "k \<in> set ks"
    with assms have "isPrimitive k" by simp
    then obtain pk where "toPropertyKey k = Inr pk"
      using toPropertyKey_primitive by blast
    then show "\<exists>b. inOperator k val = Inr b"
      by (simp add: val)
  qed
  then show ?thesis
    by (auto simp add: hasOnlyKeys_def val isObject_iff isArray_iff)
qed

lemma isMissing_iff: "isMissing v \<longleftrightarrow> v = VNull \<or> v = VUndefined"
  by (cases v) (simp_all add: isMissing_def isNull_def isUndefined_def)

lemma isBoolean_iff: "isBoolean v \<longleftrightarrow> (\<exists>b. v = VBool b)"
  by (cases v) (simp_all add: isBoolean_def isPresent_def isMissing_iff)

lemma plain_predicates:
  "(isNull v \<longleftrightarrow> v = VNull)
   \<and> (isUndefined v \<longleftrightarrow> v = VUndefined)
   \<and> (isMissing v \<longleftrightarrow> v = VNull \<or> v = VUndefined)
   \<and> (isPresent v \<longleftrightarrow> v \<noteq> VNull \<and> v \<noteq> VUndefined)
   \<and> (isBoolean v \<longleftrightarrow> (\<exists>b. v = VBool b))
   \<and> (isArray v \<longleftrightarrow> (\<exists>i xs. v = VArr i xs))
   \<and> (isObject v \<longleftrightarrow> (\<exists>i k ps qs. v = VObj i k ps qs))
   \<and> (isString v \<longleftrightarrow> (\<exists>str. v = VStr str))
   \<and> (isNumber v \<longleftrightarrow> (\<exists>n. v = VNum n \<and> n \<noteq> NaN))
   \<and> (isFunction v \<longleftrightarrow> (\<exists>g. v = VFun g))
   \<and> (isTrue v \<longleftrightarrow> v = VBool True)
   \<and> (isEqual v w \<longleftrightarrow> strictEq v w)"
  by (cases v)
     (simp_all add: isMissing_iff isBoolean_iff isArray_iff isObject_iff isString_iff isNumber_iff
        isFunction_iff isTrue_iff isEqual_def isNull_def isUndefined_def isPresent_def)

lemma class_guards:
  "(special_isNull v \<longleftrightarrow> v = VNull)
   \<and> (special_isFunction v \<longleftrightarrow> (\<exists>g. v = VFun g))
   \<and> (special_isObject v \<longleftrightarrow> (\<exists>i k ps qs. v = VObj i k ps qs))
   \<and> (special_isArray v \<longleftrightarrow> (\<exists>i xs. v = VArr i xs))
   \<and> (isMap v \<longleftrightarrow> (\<exists>i ps qs. v = VObj i MapObject ps qs))
   \<and> (isSet v \<longleftrightarrow> (\<exists>i ps qs. v = VObj i SetObject ps qs))
   \<and> (isWeakMap v \<longleftrightarrow> (\<exists>i ps qs. v = VObj i WeakMapObject ps qs))
   \<and> (isWeakSet v \<longleftrightarrow> (\<exists>i ps qs. v = VObj i WeakSetObject ps qs))
   \<and> (isDate v \<longleftrightarrow> (\<exists>i ps qs. v = VObj i DateObject ps qs))"
  by (cases v)
     (simp_all add: special_isNull_def special_isFunction_def special_isObject_def special_isArray_def
        isMap_def isSet_def isWeakMap_def isWeakSet_def isDate_def)

text \<open>
  Claim C7, as amended. The values are those of \<open>jsval\<close>: primitives, arrays, ordinary
  objects and functions, not Proxy objects (on a revoked Proxy \<open>Array.isArray\<close> throws, and
  \<open>instanceof\<close> runs a Proxy's trap). On every such value the predicates typed
  \<open>jsval \<Rightarrow> bool\<close> use no operator that can throw or run caller code; the theorem gives the
  values on which each is true. The six predicates that read a length or compare with \<open>></\<close>
  or \<open>>=\<close> return, for every such value, the boolean given here: the guard in front of the
  operation keeps it from ever failing. \<open>isConstructable\<close> returns \<open>false\<close> and touches
  nothing when its argument is not a function. For a function it runs \<open>new val()\<close>, which is
  caller code and may change the world; it then returns \<open>true\<close> when the construction
  succeeds, and when the construction throws an error with a string message it returns
  whether that message lacks the text \<open>is not a constructor\<close>. \<open>hasOnlyKeys\<close> returns
  \<open>false\<close> unless it is given an object and an array, and returns a boolean whenever every
  element of the array is a primitive value. Nothing is said about a construction that
  throws any other value, nor about a key that is an array, an object or a function, whose
  conversion to a property key runs the key's own methods.
\<close>

theorem predicate_layer_totality:
  "((isNull v \<longleftrightarrow> v = VNull)
   \<and> (isUndefined v \<longleftrightarrow> v = VUndefined)
   \<and> (isMissing v \<longleftrightarrow> v = VNull \<or> v = VUndefined)
   \<and> (isPresent v \<longleftrightarrow> v \<noteq> VNull \<and> v \<noteq> VUndefined)
   \<and> (isBoolean v \<longleftrightarrow> (\<exists>b. v = VBool b))
   \<and> (isArray v \<longleftrightarrow> (\<exists>i xs. v = VArr i xs))
   \<and> (isObject v \<longleftrightarrow> (\<exists>i k ps qs. v = VObj i k ps qs))
   \<and> (isString v \<longleftrightarrow> (\<exists>str. v = VStr str))
   \<and> (isNumber v \<longleftrightarrow> (\<exists>n. v = VNum n \<and> n \<noteq> NaN))
   \<and> (isFunction v \<longleftrightarrow> (\<exists>g. v = VFun g))
   \<and> (isTrue v \<longleftrightarrow> v = VBool True)
   \<and> (isEqual v w \<longleftrightarrow> strictEq v w))
   \<and> ((special_isNull v \<longleftrightarrow> v = VNull)
   \<and> (special_isFunction v \<longleftrightarrow> (\<exists>g. v = VFun g))
   \<and> (special_isObject v \<longleftrightarrow> (\<exists>i k ps qs. v = VObj i k ps qs))
   \<and> (special_isArray v \<longleftrightarrow> (\<exists>i xs. v = VArr i xs))
   \<and> (isMap v \<longleftrightarrow> (\<exists>i ps qs. v = VObj i MapObject ps qs))
   \<and> (isSet v \<longleftrightarrow> (\<exists>i ps qs. v = VObj i SetObject ps qs))
   \<and> (isWeakMap v \<longleftrightarrow> (\<exists>i ps qs. v = VObj i WeakMapObject ps qs))
   \<and> (isWeakSet v \<longleftrightarrow> (\<exists>i ps qs. v = VObj i WeakSetObject ps qs))
   \<and> (isDate v \<longleftrightarrow> (\<exists>i ps qs. v = VObj i DateObject ps qs)))
   \<and> (isNonEmptyString v = Inr (\<exists>str. v = VStr str \<and> str \<noteq> [])
   \<and> isNonEmptyArray v = Inr (\<exists>i xs. v = VArr i xs \<and> xs \<noteq> [])
   \<and> isPositiveInteger v = Inr (\<exists>q. v = VNum (Finite q) \<and> q \<in> \<int> \<and> 0 < q)
   \<and> isNonNegativeInteger v = Inr (\<exists>q. v = VNum (Finite q) \<and> q \<in> \<int> \<and> 0 \<le> q)
   \<and> hasOneItem v = Inr (\<exists>i x. v = VArr i [x])
   \<and> hasMultipleItems v = Inr (\<exists>i xs. v = VArr i xs \<and> 1 < length xs))
   \<and> ((\<not> isFunction v \<longrightarrow> isConstructable ctor v s = (Inr False, s))
   \<and> (ctor f s = (Inr obj, s') \<longrightarrow> isConstructable ctor (VFun f) s = (Inr True, s'))
   \<and> (ctor f s = (Inl (TypeError m), s') \<longrightarrow>
        isConstructable ctor (VFun f) s = (Inr (stringIndexOf m ''is not a constructor'' < 0), s'))
   \<and> (ctor f s = (Inl (Thrown (VObj r c own inherited)), s')
        \<and> propertyValue own inherited (KStr ''message'') = VStr m \<longrightarrow>
        isConstructable ctor (VFun f) s = (Inr (stringIndexOf m ''is not a constructor'' < 0), s')))
   \<and> ((\<not> (isObject val \<and> isArray keys) \<longrightarrow> hasOnlyKeys val keys = Inr False)
   \<and> ((\<forall>k\<in>set ks. isPrimitive k) \<longrightarrow>
        (\<exists>b. hasOnlyKeys val (VArr r' ks) = Inr b)))"
proof -
  have guarded: "isNonEmptyString v = Inr (\<exists>str. v = VStr str \<and> str \<noteq> [])
   \<and> isNonEmptyArray v = Inr (\<exists>i xs. v = VArr i xs \<and> xs \<noteq> [])
   \<and> isPositiveInteger v = Inr (\<exists>q. v = VNum (Finite q) \<and> q \<in> \<int> \<and> 0 < q)
   \<and> isNonNegativeInteger v = Inr (\<exists>q. v = VNum (Finite q) \<and> q \<in> \<int> \<and> 0 \<le> q)
   \<and> hasOneItem v = Inr (\<exists>i x. v = VArr i [x])
   \<and> hasMultipleItems v = Inr (\<exists>i xs. v = VArr i xs \<and> 1 < length xs)"
    using isNonEmptyString_eq [of v] isNonEmptyArray_eq' [of v] isPositiveInteger_eq [of v]
      isNonNegativeInteger_eq [of v] hasOneItem_eq [of v] hasMultipleItems_eq [of v]
    by (intro conjI)
  have constructable: "(\<not> isFunction v \<longrightarrow> isConstructable ctor v s = (Inr False, s))
   \<and> (ctor f s = (Inr obj, s') \<longrightarrow> isConstructable ctor (VFun f) s = (Inr True, s'))
   \<and> (ctor f s = (Inl (TypeError m), s') \<longrightarrow>
        isConstructable ctor (VFun f) s = (Inr (stringIndexOf m ''is not a constructor'' < 0), s'))
   \<and> (ctor f s = (Inl (Thrown (VObj r c own inherited)), s')
        \<and> propertyValue own inherited (KStr ''message'') = VStr m \<longrightarrow>
        isConstructable ctor (VFun f) s = (Inr (stringIndexOf m ''is not a constructor'' < 0), s'))"
    by (simp add: isConstructable_not_function isConstructable_constructed
        isConstructable_type_error isConstructable_error_object)
  have keys: "(\<not> (isObject val \<and> isArray keys) \<longrightarrow> hasOnlyKeys val keys = Inr False)
   \<and> ((\<forall>k\<in>set ks. isPrimitive k) \<longrightarrow>
        (\<exists>b. hasOnlyKeys val (VArr r' ks) = Inr b))"
    using hasOnlyKeys_other [of val keys] hasOnlyKeys_primitive_keys [of ks val r'] by blast
  show ?thesis
    by (rule conjI [OF plain_predicates conjI [OF class_guards conjI [OF guarded conjI [OF constructable keys]]]])
qed

lemmas index_eval = stringIndexOf_def scenarioConstructors_def propertyValue_def

theorem predicate_layer_totality_witness:
  "isConstructable scenarioConstructors VNull 0 = (Inr False, 0)
   \<and> isConstructable scenarioConstructors (VFun 1) 0 = (Inr True, 1)
   \<and> isConstructable scenarioConstructors (VFun 3) 0 = (Inr False, 0)
   \<and> isConstructable scenarioConstructors (VFun 5) 0 = (Inr True, 1)
   \<and> (\<exists>b. hasOnlyKeys (VObj 7 OtherObject [(KStr ''a'', VNull)] [])
          (VArr 8 [VStr ''a'', VSym 9, VNum (Finite 7), VNum NaN, VBool True, VNull, VUndefined])
        = Inr b)
   \<and> isPositiveInteger (VNum NaN) = Inr False
   \<and> isNonEmptyString (VStr []) = Inr False"
proof -
  have a: "isConstructable scenarioConstructors VNull 0 = (Inr False, 0)"
    using predicate_layer_totality [of VNull VNull scenarioConstructors 0 0 VNull 0 "[]" 0 OtherObject
        "[]" "[]" VNull VNull "[]" 0]
    by simp
  have b: "isConstructable scenarioConstructors (VFun 1) 0 = (Inr True, 1)"
    using predicate_layer_totality [of VNull VNull scenarioConstructors 0 1 "VObj 100 OtherObject [] []" 1
        "[]" 0 OtherObject "[]" "[]" VNull VNull "[]" 0]
    by (simp add: index_eval)
  have c: "isConstructable scenarioConstructors (VFun 3) 0 = (Inr False, 0)"
    using predicate_layer_totality [of VNull VNull scenarioConstructors 0 3 VNull 0
        "''f is not a constructor''" 0 OtherObject "[]" "[]" VNull VNull "[]" 0]
    by (simp add: index_eval)
  have d: "isConstructable scenarioConstructors (VFun 5) 0 = (Inr True, 1)"
    using predicate_layer_totality [of VNull VNull scenarioConstructors 0 5 VNull 1 "''boom''" 101
        OtherObject "[(KStr ''message'', VStr ''boom'')]" "[]" VNull VNull "[]" 0]
    by (simp add: index_eval)
  have e: "\<exists>b. hasOnlyKeys (VObj 7 OtherObject [(KStr ''a'', VNull)] [])
          (VArr 8 [VStr ''a'', VSym 9, VNum (Finite 7), VNum NaN, VBool True, VNull, VUndefined])
        = Inr b"
    using predicate_layer_totality [of VNull VNull scenarioConstructors 0 0 VNull 0 "[]" 0 OtherObject
        "[]" "[]" "VObj 7 OtherObject [(KStr ''a'', VNull)] []" VNull
        "[VStr ''a'', VSym 9, VNum (Finite 7), VNum NaN, VBool True, VNull, VUndefined]" 8]
    by simp
  have g: "isPositiveInteger (VNum NaN) = Inr False"
    using predicate_layer_totality [of "VNum NaN" VNull scenarioConstructors 0 0 VNull 0 "[]" 0
        OtherObject "[]" "[]" VNull VNull "[]" 0]
    by simp
  have h: "isNonEmptyString (VStr []) = Inr False"
    using predicate_layer_totality [of "VStr []" VNull scenarioConstructors 0 0 VNull 0 "[]" 0
        OtherObject "[]" "[]" VNull VNull "[]" 0]
    by simp
  from a b c d e g h show ?thesis by simp
qed

text \<open>
  The claim C7 as stated fails for \<open>isConstructable\<close>: on \<open>function () { throw null }\<close> it
  throws a \<open>TypeError\<close>, since the handler reads \<open>err.message\<close> of \<open>null\<close>; and on any
  constructor it runs the constructor, which here moves the world from state \<open>0\<close> to \<open>1\<close>.
  It fails for \<open>hasOnlyKeys\<close> as well: \<open>hasOnlyKeys({ a: null }, [Object.create(null)])\<close>
  throws a \<open>TypeError\<close>, since \<open>in\<close> cannot turn the key into a string.
\<close>

theorem isConstructable_throws_counterexample:
  "isConstructable scenarioConstructors (VFun 2) 0
     = (Inl (TypeError ''Cannot read properties of null''), 1)
   \<and> isConstructable scenarioConstructors (VFun 1) 0 = (Inr True, 1)
   \<and> hasOnlyKeys (VObj 7 OtherObject [(KStr ''a'', VNull)] []) (VArr 8 [VObj 9 OtherObject [] []])
     = Inl (TypeError ''Cannot convert object to primitive value'')"
  by (simp add: isConstructable_def isFunction_iff scenarioConstructors_def hasOnlyKeys_def
      isObject_iff isArray_iff key_order_eval)

text \<open>
  Claim C10 fails on the code, which compares lengths where the claim compares sets of
  keys. With a repeated element in \<open>keys\<close>, \<open>hasOnlyKeys({ a: 1, b: 2 }, ["a", "a"])\<close> is
  \<open>true\<close> although the keys of the object are \<open>a\<close> and \<open>b\<close>, and
  \<open>hasOnlyKeys({ a: 1 }, ["a", "a"])\<close> is \<open>false\<close> although the object has exactly the
  key \<open>a\<close>. With an inherited key, \<open>hasOnlyKeys({ a: 1 }, ["toString"])\<close> is \<open>true\<close>,
  since \<open>in\<close> also finds the properties that the object inherits.
\<close>

theorem hasOnlyKeys_duplicate_keys:
  "hasOnlyKeys (VObj r c [(KStr ''a'', VNum (Finite 1)), (KStr ''b'', VNum (Finite 2))] inherited)
       (VArr r' [VStr ''a'', VStr ''a'']) = Inr True
   \<and> objectKeys (VObj r c [(KStr ''a'', VNum (Finite 1)), (KStr ''b'', VNum (Finite 2))] inherited)
       = Inr [VStr ''a'', VStr ''b'']
   \<and> set [VStr ''a'', VStr ''b''] \<noteq> set [VStr ''a'', VStr ''a'']
   \<and> hasOnlyKeys (VObj r c [(KStr ''a'', VNum (Finite 1))] inherited)
       (VArr r' [VStr ''a'', VStr ''a'']) = Inr False
   \<and> objectKeys (VObj r c [(KStr ''a'', VNum (Finite 1))] inherited) = Inr [VStr ''a'']
   \<and> set [VStr ''a''] = set [VStr ''a'', VStr ''a'']
   \<and> hasOnlyKeys (VObj r c [(KStr ''a'', VNum (Finite 1))] [(KStr ''toString'', VFun f)])
       (VArr r' [VStr ''toString'']) = Inr True"
  by (simp add: hasOnlyKeys_def isObject_iff isArray_iff key_order_eval isEqual_def lengthValue_def)

section \<open>The default arm and the order of the arms\<close>

lemma find_isDefaultArm_None: "find isDefaultArm arms = None \<longleftrightarrow> (\<forall>a\<in>set arms. \<not> isDefaultArm a)"
  by (auto simp add: find_None_iff)

lemma symbolKeys_subset: "n \<in> set (symbolKeys own) \<Longrightarrow> KSym n \<in> fst ` set own"
  by (induction own rule: symbolKeys.induct) auto

lemma distinct_symbolKeys: "distinct (map fst own) \<Longrightarrow> distinct (symbolKeys own)"
  by (induction own rule: symbolKeys.induct) (auto dest: symbolKeys_subset)

lemma distinct_filter_eq_le: "distinct ns \<Longrightarrow> length (filter (\<lambda>n. n = a) ns) \<le> Suc 0"
  by (induction ns) (auto simp add: filter_empty_conv)

lemma basic_default_arms:
  assumes "distinct (map fst own)"
    and "normalizeBasicMatcher (VObj r c own inherited) = Inr arms"
  shows "length (filter isDefaultArm arms) \<le> 1"
proof -
  have "length (filter isDefaultArm arms) = length (filter (\<lambda>n. n = 0) (symbolKeys own))"
    using assms(2)
    by (auto simp add: normalizeBasicMatcher_object filter_map comp_def isDefaultArm_def defaultSentinel_def)
  with distinct_filter_eq_le [OF distinct_symbolKeys [OF assms(1)], of 0] show ?thesis by simp
qed

text \<open>
  Claim C8, as amended. Every arm list that \<open>match\<close> accepts, that is, with which it
  returns a result, has at least one default arm; a non-empty arm list without a default arm
  is refused with the missing-default error. An arm list of the basic form, normalized from
  a record (whose keys are distinct), has at most one default arm. Nothing limits the number
  of default arms of the advanced form.
\<close>

theorem accepted_arm_list_has_default:
  "(match call v args s = (Inr res, s') \<longrightarrow>
      (\<exists>arms. normalizedArms args = Inr arms \<and> (\<exists>a\<in>set arms. isDefaultArm a)))
   \<and> (normalizedArms args = Inr arms \<and> arms \<noteq> [] \<and> (\<forall>a\<in>set arms. \<not> isDefaultArm a) \<longrightarrow>
        match call v args s = (Inl (ReferenceError missingDefaultMessage), s))
   \<and> (distinct (map fst own) \<and> normalizedArms (VObj r c own inherited # rest) = Inr arms' \<longrightarrow>
        length (filter isDefaultArm arms') \<le> 1)"
proof (intro conjI impI)
  assume "match call v args s = (Inr res, s')"
  then obtain arms d where "normalizedArms args = Inr arms" "find isDefaultArm arms = Some d"
    by (auto simp add: match_spec split: sum.splits if_splits option.splits)
  then show "\<exists>arms. normalizedArms args = Inr arms \<and> (\<exists>a\<in>set arms. isDefaultArm a)"
    by (auto simp add: find_Some_iff)
next
  assume "normalizedArms args = Inr arms \<and> arms \<noteq> [] \<and> (\<forall>a\<in>set arms. \<not> isDefaultArm a)"
  then show "match call v args s = (Inl (ReferenceError missingDefaultMessage), s)"
    by (simp add: match_spec find_isDefaultArm_None [symmetric])
next
  assume "distinct (map fst own) \<and> normalizedArms (VObj r c own inherited # rest) = Inr arms'"
  then show "length (filter isDefaultArm arms') \<le> 1"
    using basic_default_arms [of own r c inherited arms']
    by (simp add: normalizedArms_basic)
qed

theorem accepted_arm_list_has_default_witness:
  "(\<exists>arms. normalizedArms [VArr 2 [VNum (Finite 7), VStr ''seven''], VArr 3 [defaultSentinel, VStr ''a'']]
        = Inr arms \<and> (\<exists>a\<in>set arms. isDefaultArm a))
   \<and> match (loggedCall scenarioFunctions) (VNum (Finite 7)) [VArr 2 [VNum (Finite 7), VStr ''seven'']] []
       = (Inl (ReferenceError missingDefaultMessage), [])
   \<and> length (filter isDefaultArm
        [\<lparr>matchExpression = VSym 0, evaluation = VStr ''other''\<rparr>,
         \<lparr>matchExpression = VStr ''5'', evaluation = VStr ''five''\<rparr>]) \<le> 1"
proof -
  let ?call = "loggedCall scenarioFunctions"
  let ?v = "VNum (Finite 7)"
  let ?seven = "\<lparr>matchExpression = ?v, evaluation = VStr ''seven''\<rparr>"
  let ?obj = "[(KSym 0, VStr ''other''), (KStr ''5'', VStr ''five'')]"
  let ?basic = "[\<lparr>matchExpression = VSym 0, evaluation = VStr ''other''\<rparr>,
         \<lparr>matchExpression = VStr ''5'', evaluation = VStr ''five''\<rparr>]"
  have m: "match ?call ?v [VArr 2 [?v, VStr ''seven''], VArr 3 [defaultSentinel, VStr ''a'']] []
      = (Inr (VStr ''seven''), [])"
    by (simp add: match_spec normalizedArms_advanced scenario_eval)
  have n: "normalizedArms [VArr 2 [?v, VStr ''seven'']] = Inr [?seven]"
    by (simp add: normalizedArms_advanced)
  have b: "normalizedArms [VObj 4 OtherObject ?obj []] = Inr ?basic"
    by (simp add: normalizedArms_basic normalizeBasicMatcher_object key_order_eval)
  have a1: "\<exists>arms. normalizedArms [VArr 2 [?v, VStr ''seven''], VArr 3 [defaultSentinel, VStr ''a'']]
        = Inr arms \<and> (\<exists>a\<in>set arms. isDefaultArm a)"
    using accepted_arm_list_has_default [of ?call ?v
        "[VArr 2 [?v, VStr ''seven''], VArr 3 [defaultSentinel, VStr ''a'']]" "[]" "VStr ''seven''" "[]"
        "[]" "[]" 0 OtherObject "[]" "[]" "[]"] m
    by simp
  have a2: "match ?call ?v [VArr 2 [?v, VStr ''seven'']] [] = (Inl (ReferenceError missingDefaultMessage), [])"
    using accepted_arm_list_has_default [of ?call ?v "[VArr 2 [?v, VStr ''seven'']]" "[]" VNull "[]"
        "[?seven]" "[]" 0 OtherObject "[]" "[]" "[]"] n
    by (simp add: isDefaultArm_def defaultSentinel_def)
  have a3: "length (filter isDefaultArm ?basic) \<le> 1"
    using accepted_arm_list_has_default [of ?call ?v "[]" "[]" VNull "[]" "[]" ?obj 4 OtherObject "[]"
        "[]" ?basic] b
    by simp
  from a1 a2 a3 show ?thesis by simp
qed

text \<open>
  The claim C8 as stated fails: \<open>match(7)([_def, "a"], [_def, "b"])\<close> is accepted with
  two default arms in its arm list, and returns the evaluation of the first.
\<close>

theorem two_default_arms_counterexample:
  "normalizedArms [VArr 2 [defaultSentinel, VStr ''a''], VArr 3 [defaultSentinel, VStr ''b'']]
     = Inr [\<lparr>matchExpression = defaultSentinel, evaluation = VStr ''a''\<rparr>,
            \<lparr>matchExpression = defaultSentinel, evaluation = VStr ''b''\<rparr>]
   \<and> length (filter isDefaultArm
        [\<lparr>matchExpression = defaultSentinel, evaluation = VStr ''a''\<rparr>,
         \<lparr>matchExpression = defaultSentinel, evaluation = VStr ''b''\<rparr>]) = 2
   \<and> match (loggedCall scenarioFunctions) (VNum (Finite 7))
        [VArr 2 [defaultSentinel, VStr ''a''], VArr 3 [defaultSentinel, VStr ''b'']] []
     = (Inr (VStr ''a''), [])"
  by (simp add: match_spec normalizedArms_advanced scenario_eval)

lemma symbolKeys_append: "symbolKeys (ps @ qs) = symbolKeys ps @ symbolKeys qs"
  by (induction ps rule: symbolKeys.induct) simp_all

lemma stringKeys_append: "stringKeys (ps @ qs) = stringKeys ps @ stringKeys qs"
  by (induction ps rule: stringKeys.induct) simp_all

lemma symbol_properties:
  "\<forall>p\<in>set ps. \<exists>n. fst p = KSym n \<Longrightarrow>
     map VSym (symbolKeys ps) = map keyValue (map fst ps) \<and> stringKeys ps = []"
  by (induction ps rule: symbolKeys.induct) auto

lemma string_properties:
  "\<forall>p\<in>set ps. \<exists>str. fst p = KStr str \<Longrightarrow>
     map VStr (stringKeys ps) = map keyValue (map fst ps) \<and> symbolKeys ps = []"
  by (induction ps rule: symbolKeys.induct) auto

lemma stringKeys_subset: "str \<in> set (stringKeys ps) \<Longrightarrow> KStr str \<in> fst ` set ps"
  by (induction ps rule: stringKeys.induct) auto

lemma indexedKeys_set: "set (indexedKeys ss) = {(i, s). s \<in> set ss \<and> arrayIndex s = Some i}"
  by (induction ss) (auto simp add: indexedKeys_def split: option.splits)

lemma orderedStringKeys_structure:
  "\<exists>idx. orderedStringKeys ss = idx @ filter (\<lambda>s. arrayIndex s = None) ss
         \<and> sorted (map (\<lambda>s. the (arrayIndex s)) idx)
         \<and> set idx = {s \<in> set ss. arrayIndex s \<noteq> None}"
proof -
  let ?idx = "map snd (sort_key fst (indexedKeys ss))"
  have eq: "map (\<lambda>s. the (arrayIndex s)) ?idx = map fst (sort_key fst (indexedKeys ss))"
    by (auto simp add: indexedKeys_set)
  have "sorted (map (\<lambda>s. the (arrayIndex s)) ?idx)"
    unfolding eq by (rule sorted_sort_key)
  moreover have "set ?idx = {s \<in> set ss. arrayIndex s \<noteq> None}"
    by (auto simp add: indexedKeys_set image_iff)
  moreover have "orderedStringKeys ss = ?idx @ filter (\<lambda>s. arrayIndex s = None) ss"
    by (simp add: orderedStringKeys_def)
  ultimately show ?thesis by blast
qed

lemma orderedStringKeys_plain:
  "\<forall>s\<in>set ss. arrayIndex s = None \<Longrightarrow> orderedStringKeys ss = ss"
proof -
  assume a: "\<forall>s\<in>set ss. arrayIndex s = None"
  then have "indexedKeys ss = []"
    using indexedKeys_set [of ss] by (cases "indexedKeys ss") auto
  with a show ?thesis
    by (simp add: orderedStringKeys_def)
qed

lemma propertyValue_own:
  "distinct (map fst own) \<Longrightarrow> (k, x) \<in> set own \<Longrightarrow> propertyValue own inherited k = x"
  by (simp add: propertyValue_def)

lemma set_symbolKeys: "set (symbolKeys own) = {n. KSym n \<in> fst ` set own}"
  by (induction own rule: symbolKeys.induct) auto

lemma set_stringKeys: "set (stringKeys own) = {str. KStr str \<in> fst ` set own}"
  by (induction own rule: stringKeys.induct) auto

lemma set_orderedStringKeys: "set (orderedStringKeys ss) = set ss"
  by (auto simp add: orderedStringKeys_def indexedKeys_set image_iff)

lemma set_basic_arms:
  assumes "distinct (map fst own)"
    and "normalizeBasicMatcher (VObj r c own inherited) = Inr arms"
  shows "set arms = set (callerOrderArms own)"
proof
  show "set arms \<subseteq> set (callerOrderArms own)"
  proof
    fix a assume "a \<in> set arms"
    with assms(2) consider
        n where "n \<in> set (symbolKeys own)"
          "a = \<lparr>matchExpression = VSym n, evaluation = propertyValue own inherited (KSym n)\<rparr>"
      | str where "str \<in> set (stringKeys own)"
          "a = \<lparr>matchExpression = VStr str, evaluation = propertyValue own inherited (KStr str)\<rparr>"
      by (auto simp add: normalizeBasicMatcher_object set_orderedStringKeys)
    then show "a \<in> set (callerOrderArms own)"
    proof cases
      case 1
      then obtain x where "(KSym n, x) \<in> set own"
        by (auto simp add: set_symbolKeys)
      with 1 assms(1) show ?thesis
        by (force simp add: callerOrderArms_def propertyValue_own image_iff)
    next
      case 2
      then obtain x where "(KStr str, x) \<in> set own"
        by (auto simp add: set_stringKeys)
      with 2 assms(1) show ?thesis
        by (force simp add: callerOrderArms_def propertyValue_own image_iff)
    qed
  qed
  show "set (callerOrderArms own) \<subseteq> set arms"
  proof
    fix a assume "a \<in> set (callerOrderArms own)"
    then obtain k x where kx: "(k, x) \<in> set own"
        "a = \<lparr>matchExpression = keyValue k, evaluation = x\<rparr>"
      by (auto simp add: callerOrderArms_def)
    with assms(1) have pv: "propertyValue own inherited k = x"
      by (simp add: propertyValue_own)
    show "a \<in> set arms"
    proof (cases k)
      case (KStr str)
      with kx have "str \<in> set (stringKeys own)"
        by (force simp add: set_stringKeys)
      with KStr kx pv assms(2) show ?thesis
        by (auto simp add: normalizeBasicMatcher_object set_orderedStringKeys)
    next
      case (KSym n)
      with kx have "n \<in> set (symbolKeys own)"
        by (force simp add: set_symbolKeys)
      with KSym kx pv assms(2) show ?thesis
        by (auto simp add: normalizeBasicMatcher_object)
    qed
  qed
qed

lemma keyValue_inject: "keyValue j = keyValue k \<longleftrightarrow> j = k"
  by (cases j; cases k) simp_all

lemma callerOrderArms_unique:
  assumes "distinct (map fst own)"
    and "a \<in> set (callerOrderArms own)" and "b \<in> set (callerOrderArms own)"
    and "matchExpression a = matchExpression b"
  shows "a = b"
proof -
  from assms(2,3) obtain j x k y where
      "(j, x) \<in> set own" "a = \<lparr>matchExpression = keyValue j, evaluation = x\<rparr>"
      "(k, y) \<in> set own" "b = \<lparr>matchExpression = keyValue k, evaluation = y\<rparr>"
    by (auto simp add: callerOrderArms_def)
  with assms(1,4) show ?thesis
    by (auto simp add: keyValue_inject dest: eq_key_imp_eq_value)
qed

lemma find_in_set: "find P xs = Some x \<Longrightarrow> P x \<and> x \<in> set xs"
  by (induction xs) (auto split: if_splits)

lemma find_same_set:
  assumes "set xs = set ys"
    and "\<And>a b. a \<in> set xs \<Longrightarrow> b \<in> set xs \<Longrightarrow> P a \<Longrightarrow> P b \<Longrightarrow> a = b"
  shows "find P xs = find P ys"
proof (cases "find P xs")
  case None
  then have "\<forall>x\<in>set xs. \<not> P x" by (simp add: find_None_iff)
  with assms(1) have "find P ys = None" by (simp add: find_None_iff)
  with None show ?thesis by simp
next
  case (Some a)
  then have a: "P a" "a \<in> set xs" using find_in_set by fastforce+
  with assms(1) have "find P ys \<noteq> None" by (auto simp add: find_None_iff)
  then obtain b where b: "find P ys = Some b" by auto
  then have "P b" "b \<in> set ys" using find_in_set by fastforce+
  with a assms have "a = b" by auto
  with Some b show ?thesis by simp
qed

lemma strictEq_keyValue: "strictEq (keyValue k) v \<longleftrightarrow> keyValue k = v"
  by (cases k; cases v) auto

lemma firstMatch_keys:
  assumes "\<forall>a\<in>set arms. \<exists>k. matchExpression a = keyValue k"
  shows "firstMatch call v arms s =
     (Inr (find (\<lambda>a. \<not> isDefaultArm a \<and> matchExpression a = v) arms), s)"
  using assms unfolding firstMatch_def
proof (induction arms)
  case Nil
  show ?case by simp
next
  case (Cons a arms)
  then obtain k where k: "matchExpression a = keyValue k" by auto
  have "armMatches call v a s = (Inr (matchExpression a = v), s)"
    unfolding k armMatches_def using strictEq_keyValue [of k v] by (cases k) simp_all
  with Cons show ?case by simp
qed

lemma callerOrderArms_keys: "\<forall>a\<in>set (callerOrderArms own). \<exists>k. matchExpression a = keyValue k"
  by (auto simp add: callerOrderArms_def)

lemma basic_selection:
  assumes d: "distinct (map fst own)"
    and n: "normalizeBasicMatcher (VObj r c own inherited) = Inr arms"
  shows "firstMatch call v arms s = firstMatch call v (callerOrderArms own) s"
    and "find isDefaultArm arms = find isDefaultArm (callerOrderArms own)"
    and "arms = [] \<longleftrightarrow> own = []"
proof -
  have set: "set arms = set (callerOrderArms own)"
    using d n by (rule set_basic_arms)
  have keys: "\<forall>a\<in>set arms. \<exists>k. matchExpression a = keyValue k"
    unfolding set by (rule callerOrderArms_keys)
  have uniq: "a = b" if "a \<in> set arms" "b \<in> set arms" "matchExpression a = matchExpression b" for a b
    using that callerOrderArms_unique [OF d] unfolding set by blast
  have "find (\<lambda>a. \<not> isDefaultArm a \<and> matchExpression a = v) arms
      = find (\<lambda>a. \<not> isDefaultArm a \<and> matchExpression a = v) (callerOrderArms own)"
    by (rule find_same_set [OF set]) (auto intro: uniq)
  then show "firstMatch call v arms s = firstMatch call v (callerOrderArms own) s"
    by (simp add: firstMatch_keys [OF keys] firstMatch_keys [OF callerOrderArms_keys])
  show "find isDefaultArm arms = find isDefaultArm (callerOrderArms own)"
    by (rule find_same_set [OF set]) (auto intro: uniq simp add: isDefaultArm_def)
  from set show "arms = [] \<longleftrightarrow> own = []"
    by (cases arms; cases own) (auto simp add: callerOrderArms_def)
qed

lemma match_firstMatchWins:
  "match call v args s =
     (case normalizedArms args of
        Inl e \<Rightarrow> (Inl e, s)
      | Inr arms \<Rightarrow> firstMatchWins call v arms s)"
  by (simp add: match_spec firstMatchWins_def split: sum.splits)

lemma basic_match_caller_order:
  assumes "distinct (map fst own)"
  shows "match call v (VObj r c own inherited # rest) s = firstMatchWins call v (callerOrderArms own) s"
proof -
  obtain arms where n: "normalizeBasicMatcher (VObj r c own inherited) = Inr arms"
    by (simp add: normalizeBasicMatcher_object)
  note sel = basic_selection [OF assms n]
  have "arms = [] \<longleftrightarrow> callerOrderArms own = []"
    by (simp add: sel callerOrderArms_def)
  then show ?thesis
    unfolding match_firstMatchWins normalizedArms_basic n sum.case firstMatchWins_def sel
    by simp
qed

text \<open>
  Claim C9, as amended. In the advanced form the arm list is a subsequence of the
  arguments, each read as an arm: the order is the caller's, and \<open>match\<close> is first-match-wins
  over the kept arguments in the order in which they were passed. In the basic form the arms
  of the symbol keys come first, in creation order, and the arms of the string keys after
  them in the engine's order: the array indices in ascending numeric order, then the other
  strings in creation order. This is the caller's order when the record lists its symbol
  keys before its string keys and has no array index among them, and can differ from it
  otherwise. The selection does not depend on it: the keys of a record are distinct and none
  is callable, so at most one arm can match, and \<open>match\<close> on a record is first-match-wins over
  its arms in the caller's order.
\<close>

theorem arm_order:
  "(normalizeAdvancedMatcher args = Inr arms \<longrightarrow> subseq arms (map armOfEntry args))
   \<and> (normalizeBasicMatcher (VObj r c own inherited) = Inr arms' \<longrightarrow>
        map matchExpression arms'
          = map VSym (symbolKeys own) @ map VStr (orderedStringKeys (stringKeys own))
        \<and> (\<exists>idx. orderedStringKeys (stringKeys own)
                   = idx @ filter (\<lambda>s. arrayIndex s = None) (stringKeys own)
                 \<and> sorted (map (\<lambda>s. the (arrayIndex s)) idx)
                 \<and> set idx = {s \<in> set (stringKeys own). arrayIndex s \<noteq> None})
        \<and> (own = symbolProps @ stringProps
            \<and> (\<forall>p\<in>set symbolProps. \<exists>n. fst p = KSym n)
            \<and> (\<forall>p\<in>set stringProps. \<exists>str. fst p = KStr str \<and> arrayIndex str = None)
            \<longrightarrow> map matchExpression arms' = map keyValue (map fst own)))
   \<and> match call v (VArr i xs # rest) s
        = firstMatchWins call v (map armOfEntry (filter isNonEmptyArrayValue (VArr i xs # rest))) s
   \<and> (distinct (map fst own) \<longrightarrow>
        match call v (VObj r c own inherited # rest) s = firstMatchWins call v (callerOrderArms own) s)"
proof (intro conjI impI)
  assume "normalizeAdvancedMatcher args = Inr arms"
  then show "subseq arms (map armOfEntry args)"
    by (auto simp add: normalizeAdvancedMatcher_eq subseq_map)
next
  assume n: "normalizeBasicMatcher (VObj r c own inherited) = Inr arms'"
  then show keys: "map matchExpression arms'
      = map VSym (symbolKeys own) @ map VStr (orderedStringKeys (stringKeys own))"
    by (auto simp add: normalizeBasicMatcher_object comp_def)
  show "\<exists>idx. orderedStringKeys (stringKeys own)
                   = idx @ filter (\<lambda>s. arrayIndex s = None) (stringKeys own)
                 \<and> sorted (map (\<lambda>s. the (arrayIndex s)) idx)
                 \<and> set idx = {s \<in> set (stringKeys own). arrayIndex s \<noteq> None}"
    by (rule orderedStringKeys_structure)
  assume split: "own = symbolProps @ stringProps
            \<and> (\<forall>p\<in>set symbolProps. \<exists>n. fst p = KSym n)
            \<and> (\<forall>p\<in>set stringProps. \<exists>str. fst p = KStr str \<and> arrayIndex str = None)"
  then have sy: "map VSym (symbolKeys symbolProps) = map keyValue (map fst symbolProps)"
      "stringKeys symbolProps = []"
    using symbol_properties [of symbolProps] by simp_all
  from split have st: "map VStr (stringKeys stringProps) = map keyValue (map fst stringProps)"
      "symbolKeys stringProps = []"
    using string_properties [of stringProps] by blast+
  from split have "\<forall>s\<in>set (stringKeys stringProps). arrayIndex s = None"
    by (force dest: stringKeys_subset)
  then have "orderedStringKeys (stringKeys stringProps) = stringKeys stringProps"
    by (rule orderedStringKeys_plain)
  with split sy st show "map matchExpression arms' = map keyValue (map fst own)"
    by (simp add: keys symbolKeys_append stringKeys_append)
next
  show "match call v (VArr i xs # rest) s
        = firstMatchWins call v (map armOfEntry (filter isNonEmptyArrayValue (VArr i xs # rest))) s"
    by (simp add: match_firstMatchWins normalizedArms_advanced)
next
  assume "distinct (map fst own)"
  then show "match call v (VObj r c own inherited # rest) s
      = firstMatchWins call v (callerOrderArms own) s"
    by (rule basic_match_caller_order)
qed

theorem arm_order_witness:
  "subseq [\<lparr>matchExpression = VFun 1, evaluation = VStr ''pos''\<rparr>,
           \<lparr>matchExpression = defaultSentinel, evaluation = VStr ''other''\<rparr>]
     (map armOfEntry [VArr 2 [VFun 1, VStr ''pos''], VNull, VArr 3 [defaultSentinel, VStr ''other'']])
   \<and> map matchExpression
        [\<lparr>matchExpression = VSym 0, evaluation = VStr ''other''\<rparr>,
         \<lparr>matchExpression = VStr ''a'', evaluation = VStr ''x''\<rparr>,
         \<lparr>matchExpression = VStr ''b'', evaluation = VStr ''y''\<rparr>]
     = map keyValue (map fst [(KSym 0, VStr ''other''), (KStr ''a'', VStr ''x''), (KStr ''b'', VStr ''y'')])
   \<and> match (loggedCall scenarioFunctions) (VStr ''b'')
        [VObj 5 OtherObject [(KStr ''b'', VStr ''y''), (KStr ''2'', VStr ''two''), (KSym 0, VStr ''d'')] []] []
     = (Inr (VStr ''y''), [])"
proof -
  let ?args = "[VArr 2 [VFun 1, VStr ''pos''], VNull, VArr 3 [defaultSentinel, VStr ''other'']]"
  let ?arms = "[\<lparr>matchExpression = VFun 1, evaluation = VStr ''pos''\<rparr>,
           \<lparr>matchExpression = defaultSentinel, evaluation = VStr ''other''\<rparr>]"
  let ?own = "[(KSym 0, VStr ''other''), (KStr ''a'', VStr ''x''), (KStr ''b'', VStr ''y'')]"
  let ?arms' = "[\<lparr>matchExpression = VSym 0, evaluation = VStr ''other''\<rparr>,
         \<lparr>matchExpression = VStr ''a'', evaluation = VStr ''x''\<rparr>,
         \<lparr>matchExpression = VStr ''b'', evaluation = VStr ''y''\<rparr>]"
  let ?call = "loggedCall scenarioFunctions"
  let ?props = "[(KStr ''b'', VStr ''y''), (KStr ''2'', VStr ''two''), (KSym 0, VStr ''d'')]"
  have a: "normalizeAdvancedMatcher ?args = Inr ?arms"
    by (simp add: normalizeAdvancedMatcher_eq)
  have b: "normalizeBasicMatcher (VObj 4 OtherObject ?own []) = Inr ?arms'"
    by (simp add: normalizeBasicMatcher_object key_order_eval)
  have i: "arrayIndex ''a'' = None" "arrayIndex ''b'' = None"
    by (simp_all add: key_order_eval)
  have first: "subseq ?arms (map armOfEntry ?args)
      \<and> map matchExpression ?arms' = map keyValue (map fst ?own)"
    using arm_order [of ?args ?arms 4 OtherObject ?own "[]" ?arms' "[(KSym 0, VStr ''other'')]"
      "[(KStr ''a'', VStr ''x''), (KStr ''b'', VStr ''y'')]" ?call VNull 0 "[]" "[]" "[]"] a b i
    by simp
  have second: "match ?call (VStr ''b'') [VObj 5 OtherObject ?props []] [] = (Inr (VStr ''y''), [])"
    using arm_order [of "[]" "[]" 5 OtherObject ?props "[]" "[]" "[]" "[]" ?call "VStr ''b''" 0 "[]"
        "[]" "[]"]
    by (simp add: firstMatchWins_def callerOrderArms_def scenario_eval)
  from first second show ?thesis by simp
qed

text \<open>
  The claim C9 as stated fails for the basic form: the record \<open>{ a: "x", [_def]: "d" }\<close>
  yields the arm of \<open>_def\<close> before the arm of \<open>a\<close>, and the record
  \<open>{ b: "y", 1: "one" }\<close> the arm of \<open>1\<close> before the arm of \<open>b\<close>.
\<close>

theorem basic_form_order_counterexample:
  "normalizeBasicMatcher (VObj 2 OtherObject [(KStr ''a'', VStr ''x''), (KSym 0, VStr ''d'')] [])
     = Inr [\<lparr>matchExpression = VSym 0, evaluation = VStr ''d''\<rparr>,
            \<lparr>matchExpression = VStr ''a'', evaluation = VStr ''x''\<rparr>]
   \<and> map keyValue (map fst [(KStr ''a'', VStr ''x''), (KSym 0, VStr ''d'')]) = [VStr ''a'', VSym 0]
   \<and> normalizeBasicMatcher (VObj 3 OtherObject [(KStr ''b'', VStr ''y''), (KStr ''1'', VStr ''one'')] [])
     = Inr [\<lparr>matchExpression = VStr ''1'', evaluation = VStr ''one''\<rparr>,
            \<lparr>matchExpression = VStr ''b'', evaluation = VStr ''y''\<rparr>]
   \<and> map keyValue (map fst [(KStr ''b'', VStr ''y''), (KStr ''1'', VStr ''one'')]) = [VStr ''b'', VStr ''1'']"
  by (simp add: normalizeBasicMatcher_object key_order_eval)

end
